theory Spec2Isabelle
  imports
    Complex_Main
    "HOL-Library.Multiset"
    "HOL-Library.Char_ord"
    "HOL-Library.List_Lexorder"
begin

section \<open>Python string helpers\<close>

text \<open>
  Strings are ASCII byte lists. \<open>lower\<close> is \<^verbatim>\<open>str.lower()\<close> on ASCII letters,
  \<open>contains_str sub s\<close> is \<^verbatim>\<open>sub in s\<close>, \<open>split_on sep s\<close> is
  \<^verbatim>\<open>s.split(sep)\<close> for a one-character separator.
\<close>

definition lower_char :: "char \<Rightarrow> char" where
  "lower_char c =
     (case map_of (zip ''ABCDEFGHIJKLMNOPQRSTUVWXYZ'' ''abcdefghijklmnopqrstuvwxyz'') c of
        None \<Rightarrow> c
      | Some d \<Rightarrow> d)"

definition lower :: "string \<Rightarrow> string" where
  "lower s = map lower_char s"

fun starts_with :: "string \<Rightarrow> string \<Rightarrow> bool" where
  "starts_with [] s = True"
| "starts_with (c # cs) [] = False"
| "starts_with (c # cs) (d # ds) = (c = d \<and> starts_with cs ds)"

fun contains_str :: "string \<Rightarrow> string \<Rightarrow> bool" where
  "contains_str sub [] = (sub = [])"
| "contains_str sub (c # cs) = (starts_with sub (c # cs) \<or> contains_str sub cs)"

fun split_on :: "char \<Rightarrow> string \<Rightarrow> string list" where
  "split_on sep [] = [[]]"
| "split_on sep (c # cs) =
     (if c = sep then [] # split_on sep cs
      else (case split_on sep cs of
              [] \<Rightarrow> [[c]]
            | w # ws \<Rightarrow> (c # w) # ws))"

text \<open>\<^verbatim>\<open>d.get(key, default)\<close> on a field that may be absent.\<close>

definition get_or :: "'a option \<Rightarrow> 'a \<Rightarrow> 'a" where
  "get_or field dflt = (case field of None \<Rightarrow> dflt | Some v \<Rightarrow> v)"

section \<open>yield\_scanner.py: records and upstream payloads\<close>

text \<open>
  The dataclass \<^verbatim>\<open>YieldOpportunity\<close>. Floats are modelled as reals (the code only
  compares and scales them), \<^verbatim>\<open>datetime\<close> as a timestamp.
\<close>

record YieldOpportunity =
  protocol :: string
  pool_name :: string
  apy :: real
  tvl :: real
  risk_score :: int
  category :: string
  chain :: string
  token_symbols :: "string list"
  contract_address :: string
  minimum_deposit :: real
  lock_period :: int
  last_updated :: nat

text \<open>
  The JSON payloads of the three providers, restricted to the keys the code reads. A
  field is \<open>None\<close> when the key is absent, so that every \<^verbatim>\<open>.get(key, default)\<close>
  of the source is a \<open>get_or\<close>. Payloads are well typed: a number where the code
  compares, a string where it lowers or splits.
\<close>

record poolMeta =
  ageDays :: "real option"

record defillama_pool =
  dl_apy :: "real option"
  dl_tvlUsd :: "real option"
  dl_chain :: "string option"
  dl_exposure :: "string option"
  dl_project :: "string option"
  dl_symbol :: "string option"
  dl_pool :: "string option"
  dl_poolMeta :: "poolMeta option"

record yearn_vault =
  yv_net_apy :: "real option"
  yv_tvl :: "real option"
  yv_name :: "string option"
  yv_token_symbol :: "string option"
  yv_address :: "string option"

record beefy_vault =
  bv_id :: "string option"
  bv_chain :: "string option"
  bv_name :: "string option"
  bv_stratType :: "string option"
  bv_platformId :: "string option"
  bv_earnContractAddress :: "string option"

text \<open>
  One HTTP exchange: \<^verbatim>\<open>session.get\<close> (or decoding the body) raises, or a response
  with a status code and a decoded body arrives.
\<close>

datatype 'a http = Raised string | Response nat 'a

record upstream =
  defillama_pools :: "defillama_pool list option http"
  yearn_vaults :: "yearn_vault list http"
  beefy_vaults :: "beefy_vault list http"
  beefy_apy :: "(string \<times> real) list http"
  beefy_tvl :: "(string \<times> real) list http"

section \<open>yield\_scanner.py: scoring and categories\<close>

definition calculate_risk_score :: "defillama_pool \<Rightarrow> int" where
  "calculate_risk_score pool_data =
     (let score = 5;
          tvl = get_or (dl_tvlUsd pool_data) 0;
          score = (if tvl > 100000000 then score - 1
                   else if tvl < 1000000 then score + 2
                   else score);
          age_days = get_or (ageDays (get_or (dl_poolMeta pool_data) \<lparr>ageDays = None\<rparr>)) 0;
          score = (if age_days > 365 then score - 1
                   else if age_days < 30 then score + 2
                   else score);
          project = lower (get_or (dl_project pool_data) '''');
          score = (if project \<in> set [''aave'', ''compound'', ''uniswap'', ''curve'']
                   then score - 1 else score);
          score = (if contains_str ''lp'' (lower (get_or (dl_symbol pool_data) ''''))
                   then score + 1 else score)
      in max 1 (min 10 score))"

definition calculate_beefy_risk_score :: "beefy_vault \<Rightarrow> int" where
  "calculate_beefy_risk_score vault_data =
     (let score = 4;
          strategy = lower (get_or (bv_stratType vault_data) '''');
          score = (if contains_str ''lp'' strategy then score + 1 else score);
          platform = lower (get_or (bv_platformId vault_data) '''');
          score = (if platform \<in> set [''pancakeswap'', ''quickswap'']
                   then score + 1 else score)
      in max 1 (min 10 score))"

definition categorize_pool :: "defillama_pool \<Rightarrow> string" where
  "categorize_pool pool_data =
     (let project = lower (get_or (dl_project pool_data) '''');
          symbol = lower (get_or (dl_symbol pool_data) '''')
      in if project \<in> set [''aave'', ''compound''] then ''lending''
         else if project \<in> set [''uniswap'', ''curve'', ''balancer''] then ''dex''
         else if contains_str ''lp'' symbol \<or> contains_str ''-'' symbol
           then ''liquidity_provision''
         else if project \<in> set [''yearn'', ''convex''] then ''yield_farming''
         else ''other'')"

section \<open>yield\_scanner.py: the three collectors\<close>

definition defillama_admits :: "real \<Rightarrow> real \<Rightarrow> string list \<Rightarrow> defillama_pool \<Rightarrow> bool" where
  "defillama_admits min_apy min_tvl chain_list pool =
     (get_or (dl_apy pool) 0 \<ge> min_apy \<and>
      get_or (dl_tvlUsd pool) 0 \<ge> min_tvl \<and>
      lower (get_or (dl_chain pool) '''') \<in> set chain_list \<and>
      get_or (dl_exposure pool) '''' \<noteq> ''multi'')"

definition defillama_opportunity :: "nat \<Rightarrow> defillama_pool \<Rightarrow> YieldOpportunity" where
  "defillama_opportunity now pool =
     \<lparr> protocol = get_or (dl_project pool) ''Unknown'',
       pool_name = get_or (dl_symbol pool) '''',
       apy = get_or (dl_apy pool) 0,
       tvl = get_or (dl_tvlUsd pool) 0,
       risk_score = calculate_risk_score pool,
       category = categorize_pool pool,
       chain = lower (get_or (dl_chain pool) ''''),
       token_symbols = split_on CHR ''-'' (get_or (dl_symbol pool) ''''),
       contract_address = get_or (dl_pool pool) '''',
       minimum_deposit = 0,
       lock_period = 0,
       last_updated = now \<rparr>"

definition scan_defillama_yields ::
  "nat \<Rightarrow> defillama_pool list option http \<Rightarrow> real \<Rightarrow> real \<Rightarrow> string list \<Rightarrow> YieldOpportunity list" where
  "scan_defillama_yields now resp min_apy min_tvl chain_list =
     (case resp of
        Raised e \<Rightarrow> []
      | Response status data \<Rightarrow>
          if status \<noteq> 200 then []
          else take 50 (map (defillama_opportunity now)
                 (filter (defillama_admits min_apy min_tvl chain_list) (get_or data []))))"

definition yearn_admits :: "real \<Rightarrow> real \<Rightarrow> yearn_vault \<Rightarrow> bool" where
  "yearn_admits min_apy min_tvl vault =
     (let net_apy = get_or (yv_net_apy vault) 0;
          tvl = get_or (yv_tvl vault) 0
      in net_apy \<noteq> 0 \<and> net_apy * 100 \<ge> min_apy \<and> tvl \<ge> min_tvl)"

definition yearn_opportunity :: "nat \<Rightarrow> yearn_vault \<Rightarrow> YieldOpportunity" where
  "yearn_opportunity now vault =
     \<lparr> protocol = ''Yearn'',
       pool_name = get_or (yv_name vault) '''',
       apy = get_or (yv_net_apy vault) 0 * 100,
       tvl = get_or (yv_tvl vault) 0,
       risk_score = 3,
       category = ''yield_farming'',
       chain = ''ethereum'',
       token_symbols = [get_or (yv_token_symbol vault) ''''],
       contract_address = get_or (yv_address vault) '''',
       minimum_deposit = 0,
       lock_period = 0,
       last_updated = now \<rparr>"

definition scan_yearn_yields ::
  "nat \<Rightarrow> yearn_vault list http \<Rightarrow> real \<Rightarrow> real \<Rightarrow> YieldOpportunity list" where
  "scan_yearn_yields now resp min_apy min_tvl =
     (case resp of
        Raised e \<Rightarrow> []
      | Response status data \<Rightarrow>
          if status \<noteq> 200 then []
          else map (yearn_opportunity now) (filter (yearn_admits min_apy min_tvl) data))"

definition beefy_value :: "(string \<times> real) list \<Rightarrow> string \<Rightarrow> real" where
  "beefy_value table vault_id = get_or (map_of table vault_id) 0"

definition beefy_admits ::
  "(string \<times> real) list \<Rightarrow> (string \<times> real) list \<Rightarrow> real \<Rightarrow> real \<Rightarrow> string list \<Rightarrow> beefy_vault \<Rightarrow> bool" where
  "beefy_admits apy_data tvl_data min_apy min_tvl chain_list vault =
     (let vault_id = get_or (bv_id vault) '''';
          vchain = lower (get_or (bv_chain vault) '''')
      in vchain \<in> set chain_list \<and>
         beefy_value apy_data vault_id * 100 \<ge> min_apy \<and>
         beefy_value tvl_data vault_id \<ge> min_tvl)"

definition beefy_opportunity ::
  "nat \<Rightarrow> (string \<times> real) list \<Rightarrow> (string \<times> real) list \<Rightarrow> beefy_vault \<Rightarrow> YieldOpportunity" where
  "beefy_opportunity now apy_data tvl_data vault =
     \<lparr> protocol = ''Beefy'',
       pool_name = get_or (bv_name vault) '''',
       apy = beefy_value apy_data (get_or (bv_id vault) '''') * 100,
       tvl = beefy_value tvl_data (get_or (bv_id vault) ''''),
       risk_score = calculate_beefy_risk_score vault,
       category = ''yield_farming'',
       chain = lower (get_or (bv_chain vault) ''''),
       token_symbols = take 2 (split_on CHR ''-'' (get_or (bv_name vault) '''')),
       contract_address = get_or (bv_earnContractAddress vault) '''',
       minimum_deposit = 0,
       lock_period = 0,
       last_updated = now \<rparr>"

definition scan_beefy_yields ::
  "nat \<Rightarrow> beefy_vault list http \<Rightarrow> (string \<times> real) list http \<Rightarrow> (string \<times> real) list http \<Rightarrow>
     real \<Rightarrow> real \<Rightarrow> string list \<Rightarrow> YieldOpportunity list" where
  "scan_beefy_yields now vaults_resp apy_resp tvl_resp min_apy min_tvl chain_list =
     (case vaults_resp of
        Raised e \<Rightarrow> []
      | Response s1 vaults \<Rightarrow>
          if s1 \<noteq> 200 then []
          else (case apy_resp of
                  Raised e \<Rightarrow> []
                | Response s2 apy_data \<Rightarrow>
                    if s2 \<noteq> 200 then []
                    else (case tvl_resp of
                            Raised e \<Rightarrow> []
                          | Response s3 tvl_data \<Rightarrow>
                              if s3 \<noteq> 200 then []
                              else take 30 (map (beefy_opportunity now apy_data tvl_data)
                                     (filter (beefy_admits apy_data tvl_data min_apy min_tvl chain_list)
                                        vaults)))))"

section \<open>yield\_scanner.py: the aggregator\<close>

text \<open>
  \<^verbatim>\<open>_deduplicate_opportunities\<close>: one pass with the set \<open>seen\<close> of keys met so far;
  a record is appended only when its key is new.
\<close>

definition dedup_key :: "YieldOpportunity \<Rightarrow> string \<times> string" where
  "dedup_key opp = (contract_address opp, pool_name opp)"

fun dedup_loop ::
  "(string \<times> string) set \<Rightarrow> YieldOpportunity list \<Rightarrow> YieldOpportunity list \<Rightarrow> YieldOpportunity list" where
  "dedup_loop seen unique_opportunities [] = unique_opportunities"
| "dedup_loop seen unique_opportunities (opp # opportunities) =
     (if dedup_key opp \<notin> seen
      then dedup_loop (insert (dedup_key opp) seen) (unique_opportunities @ [opp]) opportunities
      else dedup_loop seen unique_opportunities opportunities)"

definition deduplicate_opportunities :: "YieldOpportunity list \<Rightarrow> YieldOpportunity list" where
  "deduplicate_opportunities opportunities = dedup_loop {} [] opportunities"

text \<open>
  \<^verbatim>\<open>sorted(xs, key=lambda x: x.apy, reverse=True)\<close>: Python's sort is stable, also with
  \<^verbatim>\<open>reverse=True\<close>, so records of equal apy keep their order; \<open>sort_key\<close> on the
  negated key is the same stable sort.
\<close>

definition sorted_by_apy_desc :: "YieldOpportunity list \<Rightarrow> YieldOpportunity list" where
  "sorted_by_apy_desc xs = sort_key (\<lambda>x. - apy x) xs"

text \<open>
  What \<^verbatim>\<open>asyncio.gather(..., return_exceptions=True)\<close> hands back for one task, in
  the order of the task list: the returned list or the exception raised.
\<close>

datatype gathered = ResultList "YieldOpportunity list" | ResultExc string

fun extend_all :: "YieldOpportunity list \<Rightarrow> gathered list \<Rightarrow> YieldOpportunity list" where
  "extend_all all_opportunities [] = all_opportunities"
| "extend_all all_opportunities (ResultList result # results) =
     extend_all (all_opportunities @ result) results"
| "extend_all all_opportunities (ResultExc e # results) =
     extend_all all_opportunities results"

definition merge_results :: "gathered list \<Rightarrow> YieldOpportunity list" where
  "merge_results results =
     sorted_by_apy_desc (deduplicate_opportunities (extend_all [] results))"

definition default_chains :: "string list" where
  "default_chains = [''ethereum'', ''polygon'', ''arbitrum'', ''optimism'', ''avalanche'']"

definition effective_chains :: "string list option \<Rightarrow> string list" where
  "effective_chains chain_list =
     (case chain_list of
        None \<Rightarrow> default_chains
      | Some cs \<Rightarrow> if cs = [] then default_chains else cs)"

definition scan_yield_opportunities ::
  "nat \<Rightarrow> upstream \<Rightarrow> real \<Rightarrow> real \<Rightarrow> string list option \<Rightarrow> YieldOpportunity list" where
  "scan_yield_opportunities now up min_apy min_tvl chain_list =
     (let chain_list = effective_chains chain_list;
          results =
            [ResultList (scan_defillama_yields now (defillama_pools up) min_apy min_tvl chain_list),
             ResultList (scan_yearn_yields now (yearn_vaults up) min_apy min_tvl),
             ResultList (scan_beefy_yields now (beefy_vaults up) (beefy_apy up) (beefy_tvl up)
                           min_apy min_tvl chain_list)]
      in merge_results results)"

section \<open>Example records\<close>

definition opp_yearn_dai :: YieldOpportunity where
  "opp_yearn_dai =
     \<lparr> protocol = ''Yearn'', pool_name = ''DAI'', apy = 5, tvl = 2000000, risk_score = 3,
       category = ''yield_farming'', chain = ''ethereum'', token_symbols = [''DAI''],
       contract_address = ''0xda1'', minimum_deposit = 0, lock_period = 0, last_updated = 0 \<rparr>"

definition opp_beefy_dai :: YieldOpportunity where
  "opp_beefy_dai =
     \<lparr> protocol = ''Beefy'', pool_name = ''DAI'', apy = 7, tvl = 3000000, risk_score = 4,
       category = ''yield_farming'', chain = ''polygon'', token_symbols = [''DAI''],
       contract_address = ''0xda1'', minimum_deposit = 0, lock_period = 0, last_updated = 0 \<rparr>"

definition opp_small_tvl :: YieldOpportunity where
  "opp_small_tvl =
     \<lparr> protocol = ''Zeta'', pool_name = ''USDC'', apy = 5, tvl = 1000000, risk_score = 5,
       category = ''other'', chain = ''ethereum'', token_symbols = [''USDC''],
       contract_address = ''0x01'', minimum_deposit = 0, lock_period = 0, last_updated = 0 \<rparr>"

definition opp_large_tvl :: YieldOpportunity where
  "opp_large_tvl =
     \<lparr> protocol = ''Alpha'', pool_name = ''USDT'', apy = 5, tvl = 50000000, risk_score = 5,
       category = ''other'', chain = ''ethereum'', token_symbols = [''USDT''],
       contract_address = ''0x02'', minimum_deposit = 0, lock_period = 0, last_updated = 0 \<rparr>"


text \<open>
  A collector fails when its request raises or answers with a status other than 200.
\<close>

definition failed :: "'a http \<Rightarrow> bool" where
  "failed resp = (case resp of Raised e \<Rightarrow> True | Response status body \<Rightarrow> status \<noteq> 200)"

definition vault_dai :: yearn_vault where
  "vault_dai =
     \<lparr> yv_net_apy = Some (5 / 100), yv_tvl = Some 2000000, yv_name = Some ''DAI yVault'',
       yv_token_symbol = Some ''DAI'', yv_address = Some ''0xda1'' \<rparr>"

definition upstream_yearn_only :: upstream where
  "upstream_yearn_only =
     \<lparr> defillama_pools = Response 503 None, yearn_vaults = Response 200 [vault_dai],
       beefy_vaults = Raised ''timeout'', beefy_apy = Raised ''timeout'',
       beefy_tvl = Raised ''timeout'' \<rparr>"

definition upstream_all_failing :: upstream where
  "upstream_all_failing =
     \<lparr> defillama_pools = Raised ''timeout'', yearn_vaults = Response 500 [],
       beefy_vaults = Raised ''timeout'', beefy_apy = Raised ''timeout'',
       beefy_tvl = Raised ''timeout'' \<rparr>"

definition upstream_all_empty :: upstream where
  "upstream_all_empty =
     \<lparr> defillama_pools = Response 200 (Some []), yearn_vaults = Response 200 [],
       beefy_vaults = Response 200 [], beefy_apy = Response 200 [],
       beefy_tvl = Response 200 [] \<rparr>"

section \<open>cache.py: Python values and their serialization\<close>

text \<open>
  The values a caller hands to the cache: \<open>PObj s\<close> stands for any other object
  (a \<^verbatim>\<open>datetime\<close>, a \<^verbatim>\<open>Decimal\<close>, ...), \<open>s\<close> being its \<^verbatim>\<open>str()\<close>. A dict is an
  association list in insertion order. Floats are left out.
\<close>

datatype pyval =
    PNone
  | PBool bool
  | PInt int
  | PStr string
  | PList "pyval list"
  | PTuple "pyval list"
  | PDict "(pyval \<times> pyval) list"
  | PObj string

datatype json =
    JNull
  | JBool bool
  | JInt int
  | JStr string
  | JArr "json list"
  | JObj "(string \<times> json) list"

datatype py_error =
    TypeError
  | KeyError
  | UnicodeDecodeError
  | JSONDecodeError
  | PickleError
  | RedisError

text \<open>\<^verbatim>\<open>str(i)\<close> for an integer.\<close>

definition digit_char :: "nat \<Rightarrow> char" where
  "digit_char d = ''0123456789'' ! d"

function str_nat :: "nat \<Rightarrow> string" where
  "str_nat n = (if n < 10 then [digit_char n] else str_nat (n div 10) @ [digit_char (n mod 10)])"
  by pat_completeness auto
termination
  by (relation "measure id") auto

declare str_nat.simps [simp del]

definition str_int :: "int \<Rightarrow> string" where
  "str_int i = (if i < 0 then CHR ''-'' # str_nat (nat (- i)) else str_nat (nat i))"

text \<open>
  \<^verbatim>\<open>json.dumps(value, default=str)\<close>, up to the JSON tree it writes. A dict key must be
  a str, int, bool or None and is written as a string, any other key raises TypeError
  (\<^verbatim>\<open>default\<close> is not consulted for keys); a tuple is written as an array; any other
  object goes through \<^verbatim>\<open>default=str\<close> and is written as a string.
\<close>

fun json_key :: "pyval \<Rightarrow> string option" where
  "json_key (PStr s) = Some s"
| "json_key (PInt i) = Some (str_int i)"
| "json_key (PBool b) = Some (if b then ''true'' else ''false'')"
| "json_key PNone = Some ''null''"
| "json_key (PList xs) = None"
| "json_key (PTuple xs) = None"
| "json_key (PDict kvs) = None"
| "json_key (PObj s) = None"

fun dumps_ok :: "pyval \<Rightarrow> bool" where
  "dumps_ok (PList xs) = list_all dumps_ok xs"
| "dumps_ok (PTuple xs) = list_all dumps_ok xs"
| "dumps_ok (PDict kvs) = list_all (\<lambda>kv. json_key (fst kv) \<noteq> None \<and> dumps_ok (snd kv)) kvs"
| "dumps_ok PNone = True"
| "dumps_ok (PBool b) = True"
| "dumps_ok (PInt i) = True"
| "dumps_ok (PStr s) = True"
| "dumps_ok (PObj s) = True"

fun to_json :: "pyval \<Rightarrow> json" where
  "to_json PNone = JNull"
| "to_json (PBool b) = JBool b"
| "to_json (PInt i) = JInt i"
| "to_json (PStr s) = JStr s"
| "to_json (PList xs) = JArr (map to_json xs)"
| "to_json (PTuple xs) = JArr (map to_json xs)"
| "to_json (PDict kvs) =
     JObj (map (\<lambda>kv. (get_or (json_key (fst kv)) '''', to_json (snd kv))) kvs)"
| "to_json (PObj s) = JStr s"

definition json_dumps :: "pyval \<Rightarrow> py_error + json" where
  "json_dumps v = (if dumps_ok v then Inr (to_json v) else Inl TypeError)"

text \<open>
  \<^verbatim>\<open>json.loads\<close> on a JSON tree: an object becomes a dict with string keys, a repeated
  key keeping its first position and its last value; an array becomes a list.
\<close>

fun dict_set :: "('k \<times> 'v) list \<Rightarrow> 'k \<Rightarrow> 'v \<Rightarrow> ('k \<times> 'v) list" where
  "dict_set [] k v = [(k, v)]"
| "dict_set (kv # d) k v = (if fst kv = k then (k, v) # d else kv # dict_set d k v)"

definition dict_of_pairs :: "('k \<times> 'v) list \<Rightarrow> ('k \<times> 'v) list" where
  "dict_of_pairs kvs = foldl (\<lambda>d kv. dict_set d (fst kv) (snd kv)) [] kvs"

fun from_json :: "json \<Rightarrow> pyval" where
  "from_json JNull = PNone"
| "from_json (JBool b) = PBool b"
| "from_json (JInt i) = PInt i"
| "from_json (JStr s) = PStr s"
| "from_json (JArr xs) = PList (map from_json xs)"
| "from_json (JObj kvs) =
     PDict (dict_of_pairs (map (\<lambda>kv. (PStr (fst kv), from_json (snd kv))) kvs))"

text \<open>
  The bytes Redis holds for a key: JSON text (kept as its tree) or a binary pickle (kept
  as the value it encodes). \<^verbatim>\<open>json.loads\<close> on pickle bytes raises UnicodeDecodeError:
  a binary pickle starts with the byte 0x80, which is not UTF-8. \<^verbatim>\<open>pickle.loads\<close> on
  JSON text raises an unpickling error.
\<close>

datatype stored = JsonText json | PickleBytes pyval

fun json_loads_bytes :: "stored \<Rightarrow> py_error + pyval" where
  "json_loads_bytes (JsonText j) = Inr (from_json j)"
| "json_loads_bytes (PickleBytes v) = Inl UnicodeDecodeError"

fun pickle_loads_bytes :: "stored \<Rightarrow> py_error + pyval" where
  "pickle_loads_bytes (PickleBytes v) = Inr v"
| "pickle_loads_bytes (JsonText j) = Inl PickleError"

text \<open>
  The values JSON represents as they are: None, booleans, integers, strings, lists of
  such values, and dicts with distinct string keys and such values.
\<close>

fun json_native :: "pyval \<Rightarrow> bool" where
  "json_native (PList xs) = list_all json_native xs"
| "json_native (PDict kvs) =
     (distinct (map fst kvs) \<and>
      list_all (\<lambda>kv. (case fst kv of PStr s \<Rightarrow> True | _ \<Rightarrow> False) \<and> json_native (snd kv)) kvs)"
| "json_native (PTuple xs) = False"
| "json_native (PObj s) = False"
| "json_native PNone = True"
| "json_native (PBool b) = True"
| "json_native (PInt i) = True"
| "json_native (PStr s) = True"

section \<open>cache.py: the Redis client\<close>

text \<open>
  A connection holds, per key, the stored bytes and the absolute time at which they
  expire; a key is live before that time. When the server is not \<open>available\<close> every
  command raises. SETEX refuses a time to live that is not positive.
\<close>

record redis_conn =
  entries :: "string \<Rightarrow> (stored \<times> nat) option"
  available :: bool

definition redis_live :: "redis_conn \<Rightarrow> nat \<Rightarrow> string \<Rightarrow> stored option" where
  "redis_live conn now key =
     (case entries conn key of
        None \<Rightarrow> None
      | Some entry \<Rightarrow> if now < snd entry then Some (fst entry) else None)"

definition redis_setex ::
  "redis_conn \<Rightarrow> nat \<Rightarrow> string \<Rightarrow> int \<Rightarrow> stored \<Rightarrow> py_error + redis_conn" where
  "redis_setex conn now key ttl v =
     (if \<not> available conn then Inl RedisError
      else if ttl \<le> 0 then Inl RedisError
      else Inr (conn\<lparr>entries := (entries conn)(key \<mapsto> (v, now + nat ttl))\<rparr>))"

definition redis_get :: "redis_conn \<Rightarrow> nat \<Rightarrow> string \<Rightarrow> py_error + stored option" where
  "redis_get conn now key =
     (if \<not> available conn then Inl RedisError else Inr (redis_live conn now key))"

definition redis_delete ::
  "redis_conn \<Rightarrow> nat \<Rightarrow> string \<Rightarrow> py_error + (int \<times> redis_conn)" where
  "redis_delete conn now key =
     (if \<not> available conn then Inl RedisError
      else Inr (if redis_live conn now key = None then 0 else 1,
                conn\<lparr>entries := (entries conn)(key := None)\<rparr>))"

definition redis_exists :: "redis_conn \<Rightarrow> nat \<Rightarrow> string \<Rightarrow> py_error + int" where
  "redis_exists conn now key =
     (if \<not> available conn then Inl RedisError
      else Inr (if redis_live conn now key = None then 0 else 1))"

section \<open>cache.py: CacheManager\<close>

record CacheManager =
  redis :: "redis_conn option"

definition default_ttls :: "(string \<times> int) list" where
  "default_ttls =
     [(''price_data'', 60), (''yield_data'', 300), (''market_data'', 180),
      (''ai_predictions'', 3600), (''portfolio_data'', 300), (''gas_prices'', 120)]"

text \<open>
  \<^verbatim>\<open>_generate_key\<close>. \<^verbatim>\<open>json.dumps\<close> (of the sorted item list) and the MD5 hex digest
  are library functions and are parameters \<open>dumps\<close> and \<open>md5_hex\<close>. The items of a dict
  have distinct keys, so sorting the (key, value) tuples is sorting by key.
\<close>

datatype 'v cache_ident = IdStr string | IdDict "(string \<times> 'v) list"

definition generate_key ::
  "((string \<times> 'v) list \<Rightarrow> py_error + string) \<Rightarrow> (string \<Rightarrow> string) \<Rightarrow> string \<Rightarrow>
     'v cache_ident \<Rightarrow> py_error + string" where
  "generate_key dumps md5_hex prefix ident =
     (case ident of
        IdDict items \<Rightarrow>
          (let sorted_items = sort_key fst items
           in case dumps sorted_items of
                Inl e \<Rightarrow> Inl e
              | Inr identifier_str \<Rightarrow> Inr (prefix @ '':'' @ md5_hex identifier_str))
      | IdStr s \<Rightarrow> Inr (prefix @ '':'' @ s))"

text \<open>
  \<^verbatim>\<open>set\<close>, \<^verbatim>\<open>get\<close>, \<^verbatim>\<open>delete\<close> and \<^verbatim>\<open>exists\<close>: each is a body that may raise, inside
  \<^verbatim>\<open>try ... except Exception\<close>, which turns every exception into the fallback value.
\<close>

definition is_dict_or_list :: "pyval \<Rightarrow> bool" where
  "is_dict_or_list v = (case v of PDict kvs \<Rightarrow> True | PList xs \<Rightarrow> True | _ \<Rightarrow> False)"

definition serialize_value :: "pyval \<Rightarrow> py_error + stored" where
  "serialize_value v =
     (if is_dict_or_list v
      then (case json_dumps v of Inl e \<Rightarrow> Inl e | Inr j \<Rightarrow> Inr (JsonText j))
      else Inr (PickleBytes v))"

definition effective_ttl :: "int option \<Rightarrow> string \<Rightarrow> int" where
  "effective_ttl ttl data_type =
     (case ttl of
        None \<Rightarrow> get_or (map_of default_ttls data_type) 300
      | Some t \<Rightarrow> t)"

definition set_body ::
  "CacheManager \<Rightarrow> nat \<Rightarrow> string \<Rightarrow> pyval \<Rightarrow> int option \<Rightarrow> string \<Rightarrow>
     py_error + (bool \<times> CacheManager)" where
  "set_body cm now key v ttl data_type =
     (case redis cm of
        None \<Rightarrow> Inr (False, cm)
      | Some conn \<Rightarrow>
          (let ttl = effective_ttl ttl data_type
           in case serialize_value v of
                Inl e \<Rightarrow> Inl e
              | Inr serialized_value \<Rightarrow>
                  (case redis_setex conn now key ttl serialized_value of
                     Inl e \<Rightarrow> Inl e
                   | Inr conn' \<Rightarrow> Inr (True, cm\<lparr>redis := Some conn'\<rparr>))))"

definition set_cache ::
  "CacheManager \<Rightarrow> nat \<Rightarrow> string \<Rightarrow> pyval \<Rightarrow> int option \<Rightarrow> string \<Rightarrow> bool \<times> CacheManager" where
  "set_cache cm now key v ttl data_type =
     (case set_body cm now key v ttl data_type of
        Inl e \<Rightarrow> (False, cm)
      | Inr r \<Rightarrow> r)"

definition loads_value :: "stored \<Rightarrow> py_error + pyval" where
  "loads_value v =
     (case json_loads_bytes v of
        Inr r \<Rightarrow> Inr r
      | Inl e \<Rightarrow>
          if e = JSONDecodeError \<or> e = TypeError then pickle_loads_bytes v else Inl e)"

definition get_body :: "CacheManager \<Rightarrow> nat \<Rightarrow> string \<Rightarrow> pyval \<Rightarrow> py_error + pyval" where
  "get_body cm now key dflt =
     (case redis cm of
        None \<Rightarrow> Inr dflt
      | Some conn \<Rightarrow>
          (case redis_get conn now key of
             Inl e \<Rightarrow> Inl e
           | Inr None \<Rightarrow> Inr dflt
           | Inr (Some v) \<Rightarrow> loads_value v))"

definition get_cache :: "CacheManager \<Rightarrow> nat \<Rightarrow> string \<Rightarrow> pyval \<Rightarrow> pyval" where
  "get_cache cm now key dflt =
     (case get_body cm now key dflt of
        Inl e \<Rightarrow> dflt
      | Inr r \<Rightarrow> r)"

definition delete_body ::
  "CacheManager \<Rightarrow> nat \<Rightarrow> string \<Rightarrow> py_error + (bool \<times> CacheManager)" where
  "delete_body cm now key =
     (case redis cm of
        None \<Rightarrow> Inr (False, cm)
      | Some conn \<Rightarrow>
          (case redis_delete conn now key of
             Inl e \<Rightarrow> Inl e
           | Inr r \<Rightarrow> Inr (fst r > 0, cm\<lparr>redis := Some (snd r)\<rparr>)))"

definition delete_cache :: "CacheManager \<Rightarrow> nat \<Rightarrow> string \<Rightarrow> bool \<times> CacheManager" where
  "delete_cache cm now key =
     (case delete_body cm now key of
        Inl e \<Rightarrow> (False, cm)
      | Inr r \<Rightarrow> r)"

definition exists_cache :: "CacheManager \<Rightarrow> nat \<Rightarrow> string \<Rightarrow> bool" where
  "exists_cache cm now key =
     (case redis cm of
        None \<Rightarrow> False
      | Some conn \<Rightarrow>
          (case redis_exists conn now key of
             Inl e \<Rightarrow> False
           | Inr r \<Rightarrow> r > 0))"

definition set_if_not_exists ::
  "CacheManager \<Rightarrow> nat \<Rightarrow> string \<Rightarrow> pyval \<Rightarrow> int option \<Rightarrow> string \<Rightarrow> bool \<times> CacheManager" where
  "set_if_not_exists cm now key v ttl data_type =
     (case redis cm of
        None \<Rightarrow> (False, cm)
      | Some conn \<Rightarrow>
          if exists_cache cm now key then (False, cm)
          else set_cache cm now key v ttl data_type)"

text \<open>
  Two calls of \<^verbatim>\<open>set_if_not_exists\<close> on one event loop. A coroutine runs until it awaits
  Redis, so a call is two steps: the EXISTS command with the branch on its answer, then
  the SETEX command of \<^verbatim>\<open>set\<close>. A schedule lists which call (0 or 1) takes the next
  step.
\<close>

datatype task = Start | Checked | Finished bool

definition step_call ::
  "CacheManager \<Rightarrow> nat \<Rightarrow> string \<Rightarrow> int option \<Rightarrow> string \<Rightarrow> pyval \<Rightarrow> task \<Rightarrow>
     task \<times> CacheManager" where
  "step_call cm now key ttl data_type v t =
     (case t of
        Start \<Rightarrow>
          (case redis cm of
             None \<Rightarrow> (Finished False, cm)
           | Some conn \<Rightarrow>
               if exists_cache cm now key then (Finished False, cm) else (Checked, cm))
      | Checked \<Rightarrow>
          (let r = set_cache cm now key v ttl data_type in (Finished (fst r), snd r))
      | Finished b \<Rightarrow> (Finished b, cm))"

fun run_schedule ::
  "CacheManager \<Rightarrow> nat \<Rightarrow> string \<Rightarrow> int option \<Rightarrow> string \<Rightarrow> pyval \<times> task \<Rightarrow> pyval \<times> task \<Rightarrow>
     nat list \<Rightarrow> task \<times> task \<times> CacheManager" where
  "run_schedule cm now key ttl data_type c0 c1 [] = (snd c0, snd c1, cm)"
| "run_schedule cm now key ttl data_type c0 c1 (i # schedule) =
     (if i = 0
      then (let r = step_call cm now key ttl data_type (fst c0) (snd c0)
            in run_schedule (snd r) now key ttl data_type (fst c0, fst r) c1 schedule)
      else (let r = step_call cm now key ttl data_type (fst c1) (snd c1)
            in run_schedule (snd r) now key ttl data_type c0 (fst c1, fst r) schedule))"

definition empty_cache :: CacheManager where
  "empty_cache = \<lparr> redis = Some \<lparr> entries = (\<lambda>k. None), available = True \<rparr> \<rparr>"

definition down_cache :: CacheManager where
  "down_cache = \<lparr> redis = Some \<lparr> entries = (\<lambda>k. None), available = False \<rparr> \<rparr>"

definition value_v1 :: pyval where
  "value_v1 = PDict [(PStr ''apy'', PInt 1)]"

definition value_v2 :: pyval where
  "value_v2 = PDict [(PStr ''apy'', PInt 2)]"

definition value_int_key :: pyval where
  "value_int_key = PDict [(PInt 1, PStr ''a'')]"

section \<open>cache.py: initialize\<close>

text \<open>
  \<^verbatim>\<open>initialize\<close>: \<^verbatim>\<open>from_url\<close> builds the client without connecting, \<^verbatim>\<open>ping\<close> raises
  when the server cannot be reached, and the handler logs the exception and raises it
  again.
\<close>

definition initialize :: "redis_conn \<Rightarrow> py_error + CacheManager" where
  "initialize conn =
     (if \<not> available conn then Inl RedisError else Inr \<lparr> redis = Some conn \<rparr>)"

definition value_tuple_key :: pyval where
  "value_tuple_key = PDict [(PTuple [PInt 1, PInt 2], PStr ''a'')]"

section \<open>database.py: tables\<close>

text \<open>
  The tables \<^verbatim>\<open>yield_data\<close> and \<^verbatim>\<open>portfolio_snapshots\<close> as \<^verbatim>\<open>_create_tables\<close> declares
  them. A nullable column holds an option. \<^verbatim>\<open>yield_data\<close> carries
  \<^verbatim>\<open>UNIQUE(protocol, pool_name, chain, last_updated)\<close>; \<^verbatim>\<open>portfolio_snapshots\<close> carries
  no constraint besides its primary key \<^verbatim>\<open>id\<close>. A table is the list of its rows in
  insertion order, with the next value of its \<^verbatim>\<open>SERIAL\<close> sequence. The manager is
  initialized and the server answers: the statements below are those that reach it.
\<close>

record yield_row =
  yr_id :: nat
  yr_protocol :: string
  yr_pool_name :: "string option"
  yr_apy :: real
  yr_tvl :: real
  yr_risk_score :: int
  yr_category :: "string option"
  yr_chain :: string
  yr_contract_address :: "string option"
  yr_token_symbols :: "string list"
  yr_minimum_deposit :: real
  yr_lock_period :: int
  yr_last_updated :: nat
  yr_created_at :: nat

record snapshot_row =
  sr_id :: nat
  sr_portfolio_id :: string
  sr_total_value :: real
  sr_allocations :: json
  sr_performance_metrics :: json
  sr_risk_metrics :: json
  sr_timestamp :: nat
  sr_created_at :: nat

record database =
  yield_data :: "yield_row list"
  yield_seq :: nat
  portfolio_snapshots :: "snapshot_row list"
  snapshot_seq :: nat

section \<open>database.py: store\_yield\_data\<close>

text \<open>
  One element of the argument list: a dict, a field being \<open>None\<close> when the key is absent.
  \<^verbatim>\<open>data['protocol']\<close>, \<^verbatim>\<open>data['apy']\<close>, \<^verbatim>\<open>data['chain']\<close> and \<^verbatim>\<open>data['last_updated']\<close>
  raise KeyError on an absent key, the other keys are read with \<^verbatim>\<open>.get\<close>. Values are
  well typed and fit their columns.
\<close>

record yield_dict =
  yd_protocol :: "string option"
  yd_pool_name :: "string option"
  yd_apy :: "real option"
  yd_tvl :: "real option"
  yd_risk_score :: "int option"
  yd_category :: "string option"
  yd_chain :: "string option"
  yd_contract_address :: "string option"
  yd_token_symbols :: "string list option"
  yd_minimum_deposit :: "real option"
  yd_lock_period :: "int option"
  yd_last_updated :: "nat option"

text \<open>The tuple of the twelve statement arguments built for one dict.\<close>

record yield_args =
  ya_protocol :: string
  ya_pool_name :: "string option"
  ya_apy :: real
  ya_tvl :: real
  ya_risk_score :: int
  ya_category :: "string option"
  ya_chain :: string
  ya_contract_address :: "string option"
  ya_token_symbols :: "string list"
  ya_minimum_deposit :: real
  ya_lock_period :: int
  ya_last_updated :: nat

definition yield_record :: "yield_dict \<Rightarrow> py_error + yield_args" where
  "yield_record data =
     (case yd_protocol data of
        None \<Rightarrow> Inl KeyError
      | Some p \<Rightarrow>
     (case yd_apy data of
        None \<Rightarrow> Inl KeyError
      | Some a \<Rightarrow>
     (case yd_chain data of
        None \<Rightarrow> Inl KeyError
      | Some c \<Rightarrow>
     (case yd_last_updated data of
        None \<Rightarrow> Inl KeyError
      | Some u \<Rightarrow>
          Inr \<lparr> ya_protocol = p,
                ya_pool_name = yd_pool_name data,
                ya_apy = a,
                ya_tvl = get_or (yd_tvl data) 0,
                ya_risk_score = get_or (yd_risk_score data) 5,
                ya_category = yd_category data,
                ya_chain = c,
                ya_contract_address = yd_contract_address data,
                ya_token_symbols = get_or (yd_token_symbols data) [],
                ya_minimum_deposit = get_or (yd_minimum_deposit data) 0,
                ya_lock_period = get_or (yd_lock_period data) 0,
                ya_last_updated = u \<rparr>))))"

fun yield_records :: "yield_dict list \<Rightarrow> py_error + yield_args list" where
  "yield_records [] = Inr []"
| "yield_records (data # rest) =
     (case yield_record data of
        Inl e \<Rightarrow> Inl e
      | Inr r \<Rightarrow> (case yield_records rest of Inl e \<Rightarrow> Inl e | Inr rs \<Rightarrow> Inr (r # rs)))"

text \<open>
  \<^verbatim>\<open>INSERT ... ON CONFLICT (protocol, pool_name, chain, last_updated) DO UPDATE SET
  apy, tvl, risk_score\<close> for one argument tuple. The unique index treats NULLs as
  distinct, so a tuple whose \<^verbatim>\<open>pool_name\<close> is NULL conflicts with no row. On a conflict
  the three columns of the conflicting row are overwritten; otherwise a row is appended,
  with \<^verbatim>\<open>id\<close> from the sequence and \<^verbatim>\<open>created_at\<close> the current time. The sequence
  advances in both cases.
\<close>

definition yield_key :: "yield_row \<Rightarrow> string \<times> string option \<times> string \<times> nat" where
  "yield_key r = (yr_protocol r, yr_pool_name r, yr_chain r, yr_last_updated r)"

definition args_key :: "yield_args \<Rightarrow> string \<times> string option \<times> string \<times> nat" where
  "args_key a = (ya_protocol a, ya_pool_name a, ya_chain a, ya_last_updated a)"

definition conflicts :: "yield_args \<Rightarrow> yield_row \<Rightarrow> bool" where
  "conflicts a r = (ya_pool_name a \<noteq> None \<and> yield_key r = args_key a)"

definition do_update :: "yield_args \<Rightarrow> yield_row \<Rightarrow> yield_row" where
  "do_update a r =
     r\<lparr> yr_apy := ya_apy a, yr_tvl := ya_tvl a, yr_risk_score := ya_risk_score a \<rparr>"

definition new_yield_row :: "nat \<Rightarrow> nat \<Rightarrow> yield_args \<Rightarrow> yield_row" where
  "new_yield_row i now a =
     \<lparr> yr_id = i,
       yr_protocol = ya_protocol a,
       yr_pool_name = ya_pool_name a,
       yr_apy = ya_apy a,
       yr_tvl = ya_tvl a,
       yr_risk_score = ya_risk_score a,
       yr_category = ya_category a,
       yr_chain = ya_chain a,
       yr_contract_address = ya_contract_address a,
       yr_token_symbols = ya_token_symbols a,
       yr_minimum_deposit = ya_minimum_deposit a,
       yr_lock_period = ya_lock_period a,
       yr_last_updated = ya_last_updated a,
       yr_created_at = now \<rparr>"

definition upsert_yield :: "nat \<Rightarrow> database \<Rightarrow> yield_args \<Rightarrow> database" where
  "upsert_yield now db a =
     (if list_ex (conflicts a) (yield_data db)
      then db\<lparr> yield_data := map (\<lambda>r. if conflicts a r then do_update a r else r) (yield_data db),
               yield_seq := Suc (yield_seq db) \<rparr>
      else db\<lparr> yield_data := yield_data db @ [new_yield_row (yield_seq db) now a],
               yield_seq := Suc (yield_seq db) \<rparr>)"

text \<open>
  \<^verbatim>\<open>store_yield_data\<close>: all tuples are built first, then \<^verbatim>\<open>executemany\<close> runs the
  statement once per tuple, in order. An exception is logged and raised again.
\<close>

definition store_yield_data ::
  "database \<Rightarrow> nat \<Rightarrow> yield_dict list \<Rightarrow> py_error + (nat \<times> database)" where
  "store_yield_data db now yield_data_list =
     (if yield_data_list = [] then Inr (0, db)
      else (case yield_records yield_data_list of
              Inl e \<Rightarrow> Inl e
            | Inr records \<Rightarrow> Inr (length records, foldl (upsert_yield now) db records)))"

section \<open>database.py: store\_portfolio\_snapshot\<close>

text \<open>
  \<^verbatim>\<open>json.dumps\<close> without \<^verbatim>\<open>default\<close>: an object that JSON does not know raises
  TypeError.
\<close>

fun has_obj :: "pyval \<Rightarrow> bool" where
  "has_obj (PObj s) = True"
| "has_obj (PList xs) = list_ex has_obj xs"
| "has_obj (PTuple xs) = list_ex has_obj xs"
| "has_obj (PDict kvs) = list_ex (\<lambda>kv. has_obj (snd kv)) kvs"
| "has_obj PNone = False"
| "has_obj (PBool b) = False"
| "has_obj (PInt i) = False"
| "has_obj (PStr s) = False"

definition json_dumps_strict :: "pyval \<Rightarrow> py_error + json" where
  "json_dumps_strict v = (if dumps_ok v \<and> \<not> has_obj v then Inr (to_json v) else Inl TypeError)"

record snapshot_dict =
  sd_total_value :: "real option"
  sd_allocations :: "pyval option"
  sd_performance_metrics :: "pyval option"
  sd_risk_metrics :: "pyval option"
  sd_timestamp :: "nat option"

text \<open>
  The body of \<^verbatim>\<open>store_portfolio_snapshot\<close>: a plain \<^verbatim>\<open>INSERT\<close>, the arguments being
  evaluated from left to right. The function catches every exception and returns False.
\<close>

definition snapshot_body ::
  "database \<Rightarrow> nat \<Rightarrow> string \<Rightarrow> snapshot_dict \<Rightarrow> py_error + database" where
  "snapshot_body db now portfolio_id snapshot_data =
     (case sd_total_value snapshot_data of
        None \<Rightarrow> Inl KeyError
      | Some total_value \<Rightarrow>
     (case sd_allocations snapshot_data of
        None \<Rightarrow> Inl KeyError
      | Some alloc \<Rightarrow>
     (case json_dumps_strict alloc of
        Inl e \<Rightarrow> Inl e
      | Inr allocations \<Rightarrow>
     (case json_dumps_strict (get_or (sd_performance_metrics snapshot_data) (PDict [])) of
        Inl e \<Rightarrow> Inl e
      | Inr performance \<Rightarrow>
     (case json_dumps_strict (get_or (sd_risk_metrics snapshot_data) (PDict [])) of
        Inl e \<Rightarrow> Inl e
      | Inr risk \<Rightarrow>
     (case sd_timestamp snapshot_data of
        None \<Rightarrow> Inl KeyError
      | Some ts \<Rightarrow>
          Inr (db\<lparr> portfolio_snapshots := portfolio_snapshots db @
                       [\<lparr> sr_id = snapshot_seq db,
                          sr_portfolio_id = portfolio_id,
                          sr_total_value = total_value,
                          sr_allocations = allocations,
                          sr_performance_metrics = performance,
                          sr_risk_metrics = risk,
                          sr_timestamp = ts,
                          sr_created_at = now \<rparr>],
                   snapshot_seq := Suc (snapshot_seq db) \<rparr>)))))))"

definition store_portfolio_snapshot ::
  "database \<Rightarrow> nat \<Rightarrow> string \<Rightarrow> snapshot_dict \<Rightarrow> bool \<times> database" where
  "store_portfolio_snapshot db now portfolio_id snapshot_data =
     (case snapshot_body db now portfolio_id snapshot_data of
        Inl e \<Rightarrow> (False, db)
      | Inr db' \<Rightarrow> (True, db'))"

definition empty_db :: database where
  "empty_db = \<lparr> yield_data = [], yield_seq = 1, portfolio_snapshots = [], snapshot_seq = 1 \<rparr>"

definition snapshot_a :: snapshot_dict where
  "snapshot_a =
     \<lparr> sd_total_value = Some 1000, sd_allocations = Some (PDict [(PStr ''aave'', PInt 60)]),
       sd_performance_metrics = None, sd_risk_metrics = None, sd_timestamp = Some 100 \<rparr>"

definition snapshot_b :: snapshot_dict where
  "snapshot_b =
     \<lparr> sd_total_value = Some 2000, sd_allocations = Some (PDict [(PStr ''aave'', PInt 40)]),
       sd_performance_metrics = None, sd_risk_metrics = None, sd_timestamp = Some 100 \<rparr>"

definition yield_dict_a :: yield_dict where
  "yield_dict_a =
     \<lparr> yd_protocol = Some ''aave'', yd_pool_name = Some ''USDC'', yd_apy = Some 4,
       yd_tvl = Some 5000000, yd_risk_score = Some 3, yd_category = Some ''lending'',
       yd_chain = Some ''ethereum'', yd_contract_address = Some ''0xa'',
       yd_token_symbols = Some [''USDC''], yd_minimum_deposit = None, yd_lock_period = None,
       yd_last_updated = Some 100 \<rparr>"

definition yield_dict_b :: yield_dict where
  "yield_dict_b = yield_dict_a\<lparr> yd_apy := Some 5, yd_risk_score := Some 7,
     yd_category := Some ''other'' \<rparr>"

text \<open>The columns of a yield row that the conflict update leaves alone.\<close>

definition yield_fixed ::
  "yield_row \<Rightarrow> nat \<times> (string \<times> string option \<times> string \<times> nat) \<times> string option \<times> string option
     \<times> string list \<times> real \<times> int \<times> nat" where
  "yield_fixed r =
     (yr_id r, yield_key r, yr_category r, yr_contract_address r, yr_token_symbols r,
      yr_minimum_deposit r, yr_lock_period r, yr_created_at r)"

text \<open>The tables after two snapshots, and after two yield records, of the same key.\<close>

definition db_two_snapshots :: database where
  "db_two_snapshots =
     snd (store_portfolio_snapshot
            (snd (store_portfolio_snapshot empty_db 1 ''p1'' snapshot_a)) 2 ''p1'' snapshot_b)"

definition yield_args_a :: yield_args where
  "yield_args_a =
     \<lparr> ya_protocol = ''aave'', ya_pool_name = Some ''USDC'', ya_apy = 4, ya_tvl = 5000000,
       ya_risk_score = 3, ya_category = Some ''lending'', ya_chain = ''ethereum'',
       ya_contract_address = Some ''0xa'', ya_token_symbols = [''USDC''],
       ya_minimum_deposit = 0, ya_lock_period = 0, ya_last_updated = 100 \<rparr>"

definition yield_args_b :: yield_args where
  "yield_args_b = yield_args_a\<lparr> ya_apy := 5, ya_risk_score := 7, ya_category := Some ''other'' \<rparr>"

definition db_two_yields :: database where
  "db_two_yields = upsert_yield 2 (upsert_yield 1 empty_db yield_args_a) yield_args_b"

section \<open>Further example records\<close>




section \<open>The risk score as the specification words it\<close>



section \<open>Properties of the aggregator\<close>

subsection \<open>Risk score\<close>












subsection \<open>Deduplication\<close>

lemma dedup_loop_acc: "dedup_loop seen acc xs = acc @ dedup_loop seen [] xs"
proof (induction xs arbitrary: seen acc)
  case Nil
  show ?case by simp
next
  case (Cons x xs)
  show ?case
    using Cons.IH[of "insert (dedup_key x) seen" "acc @ [x]"]
      Cons.IH[of "insert (dedup_key x) seen" "[x]"] Cons.IH[of seen acc]
    by simp
qed

lemma dedup_loop_keys: "dedup_key ` set (dedup_loop seen [] xs) = dedup_key ` set xs - seen"
proof (induction xs arbitrary: seen)
  case Nil
  show ?case by simp
next
  case (Cons x xs)
  show ?case
    using Cons.IH[of "insert (dedup_key x) seen"] Cons.IH[of seen]
      dedup_loop_acc[of "insert (dedup_key x) seen" "[x]" xs]
    by auto
qed

lemma dedup_loop_distinct: "distinct (map dedup_key (dedup_loop seen [] xs))"
proof (induction xs arbitrary: seen)
  case Nil
  show ?case by simp
next
  case (Cons x xs)
  show ?case
    using Cons.IH[of "insert (dedup_key x) seen"] Cons.IH[of seen]
      dedup_loop_acc[of "insert (dedup_key x) seen" "[x]" xs]
      dedup_loop_keys[of "insert (dedup_key x) seen" xs]
    by auto
qed

lemma dedup_loop_first:
  "r \<in> set (dedup_loop seen [] xs) \<Longrightarrow> find (\<lambda>x. dedup_key x = dedup_key r) xs = Some r"
proof (induction xs arbitrary: seen)
  case Nil
  then show ?case by simp
next
  case (Cons x xs)
  show ?case
  proof (cases "dedup_key x \<in> seen")
    case True
    with Cons.prems have r: "r \<in> set (dedup_loop seen [] xs)" by simp
    from r dedup_loop_keys[of seen xs] have "dedup_key r \<notin> seen" by blast
    with True have "dedup_key x \<noteq> dedup_key r" by auto
    with Cons.IH[OF r] show ?thesis by simp
  next
    case False
    with Cons.prems dedup_loop_acc[of "insert (dedup_key x) seen" "[x]" xs]
    have "r = x \<or> r \<in> set (dedup_loop (insert (dedup_key x) seen) [] xs)" by auto
    then show ?thesis
    proof
      assume "r = x"
      then show ?thesis by simp
    next
      assume r: "r \<in> set (dedup_loop (insert (dedup_key x) seen) [] xs)"
      from r dedup_loop_keys[of "insert (dedup_key x) seen" xs]
      have "dedup_key r \<noteq> dedup_key x" by blast
      with Cons.IH[OF r] show ?thesis by auto
    qed
  qed
qed

text \<open>
  C3, as stated, fails: of two records with the same (contract\_address, pool\_name) the
  code keeps the one met first, here the Yearn record that precedes the Beefy one in
  the concatenation.
\<close>

theorem dedup_keeps_later_counterexample:
  "deduplicate_opportunities
     (extend_all [] [ResultList [opp_yearn_dai], ResultList [opp_beefy_dai]]) = [opp_yearn_dai]
   \<and> dedup_key opp_yearn_dai = dedup_key opp_beefy_dai
   \<and> opp_yearn_dai \<noteq> opp_beefy_dai"
  by (simp add: deduplicate_opportunities_def dedup_key_def opp_yearn_dai_def opp_beefy_dai_def)

text \<open>
  C3, amended. Deduplication keeps, for every dedup key, the record met first in the
  concatenated list (collectors in the order DeFiLlama, Yearn, Beefy): the output has at
  most one record per key, every output record is the first record of the input with its
  key, and every key of the input is still present.
\<close>

theorem dedup_first_wins:
  "distinct (map dedup_key (deduplicate_opportunities xs))
   \<and> (\<forall>r \<in> set (deduplicate_opportunities xs).
         find (\<lambda>x. dedup_key x = dedup_key r) xs = Some r)
   \<and> dedup_key ` set (deduplicate_opportunities xs) = dedup_key ` set xs"
  unfolding deduplicate_opportunities_def
  using dedup_loop_distinct[of "{}" xs] dedup_loop_first[of _ "{}" xs] dedup_loop_keys[of "{}" xs]
  by simp

theorem dedup_first_wins_witness:
  "opp_yearn_dai \<in> set (deduplicate_opportunities [opp_yearn_dai, opp_beefy_dai])
   \<and> find (\<lambda>x. dedup_key x = dedup_key opp_yearn_dai) [opp_yearn_dai, opp_beefy_dai]
       = Some opp_yearn_dai
   \<and> distinct (map dedup_key (deduplicate_opportunities [opp_yearn_dai, opp_beefy_dai]))"
proof -
  have m: "opp_yearn_dai \<in> set (deduplicate_opportunities [opp_yearn_dai, opp_beefy_dai])"
    by (simp add: deduplicate_opportunities_def)
  from dedup_first_wins[of "[opp_yearn_dai, opp_beefy_dai]"] m show ?thesis by blast
qed

subsection \<open>Ordering\<close>

text \<open>
  C4, as stated, fails: two records of equal apy stay in their input order, the one with
  the smaller tvl first, where the claim puts the larger tvl first.
\<close>

theorem sort_tie_break_counterexample:
  "sorted_by_apy_desc [opp_small_tvl, opp_large_tvl] = [opp_small_tvl, opp_large_tvl]
   \<and> apy opp_small_tvl = apy opp_large_tvl
   \<and> tvl opp_small_tvl < tvl opp_large_tvl"
  by (simp add: sorted_by_apy_desc_def opp_small_tvl_def opp_large_tvl_def)

text \<open>
  C4, amended. The final ordering sorts by apy descending and nothing else: the output
  is a permutation of the deduplicated list, apy never increases along it, and records
  of equal apy keep the order they had in the deduplicated list (the sort is stable; no
  tie-break by tvl or protocol name).
\<close>

theorem sorted_by_apy_desc_stable:
  "sorted_wrt (\<lambda>a b. apy a \<ge> apy b) (sorted_by_apy_desc xs)
   \<and> mset (sorted_by_apy_desc xs) = mset xs
   \<and> (\<forall>k. filter (\<lambda>y. apy y = k) (sorted_by_apy_desc xs) = filter (\<lambda>y. apy y = k) xs)"
proof -
  have "sorted (map (\<lambda>x. - apy x) (sorted_by_apy_desc xs))"
    by (simp add: sorted_by_apy_desc_def)
  then have a: "sorted_wrt (\<lambda>a b. apy a \<ge> apy b) (sorted_by_apy_desc xs)"
    by (simp add: sorted_map)
  have b: "filter (\<lambda>y. apy y = k) (sorted_by_apy_desc xs) = filter (\<lambda>y. apy y = k) xs" for k
    using sort_key_stable[of "\<lambda>x. - apy x" "- k" xs] by (simp add: sorted_by_apy_desc_def)
  show ?thesis using a b by (simp add: sorted_by_apy_desc_def)
qed

subsection \<open>Partial failure and caller filters\<close>

lemma dedup_nil: "deduplicate_opportunities [] = []"
  by (simp add: deduplicate_opportunities_def)

lemma sorted_nil: "sorted_by_apy_desc [] = []"
  by (simp add: sorted_by_apy_desc_def)

text \<open>
  C2, as stated, fails: the aggregator returns a record list and nothing else. When every
  source fails the result is the empty list, and it is the same empty list when every
  source answers with no records, so the result does not tell the two apart.
\<close>

theorem all_failing_counterexample:
  "scan_yield_opportunities 0 upstream_all_failing 1 100000 None = []
   \<and> scan_yield_opportunities 0 upstream_all_empty 1 100000 None = []"
  by (simp add: scan_yield_opportunities_def effective_chains_def merge_results_def
      scan_defillama_yields_def scan_yearn_yields_def scan_beefy_yields_def
      upstream_all_failing_def upstream_all_empty_def get_or_def
      deduplicate_opportunities_def sorted_by_apy_desc_def)

text \<open>
  C2, amended. The output of an aggregation run is the ranked record list alone (there is
  no per-source status map): it is the sorted, deduplicated concatenation of the three
  collectors' lists; a collector whose request raises or answers with a status other
  than 200 contributes the empty list, whatever the other collectors return; and when
  all three fail the output is the empty list.
\<close>

theorem fail_partial:
  "scan_yield_opportunities now up min_apy min_tvl cs =
     sorted_by_apy_desc (deduplicate_opportunities
       (scan_defillama_yields now (defillama_pools up) min_apy min_tvl (effective_chains cs)
        @ scan_yearn_yields now (yearn_vaults up) min_apy min_tvl
        @ scan_beefy_yields now (beefy_vaults up) (beefy_apy up) (beefy_tvl up)
            min_apy min_tvl (effective_chains cs)))
   \<and> (failed (defillama_pools up) \<longrightarrow>
        scan_defillama_yields now (defillama_pools up) min_apy min_tvl (effective_chains cs) = [])
   \<and> (failed (yearn_vaults up) \<longrightarrow>
        scan_yearn_yields now (yearn_vaults up) min_apy min_tvl = [])
   \<and> (failed (beefy_vaults up) \<or> failed (beefy_apy up) \<or> failed (beefy_tvl up) \<longrightarrow>
        scan_beefy_yields now (beefy_vaults up) (beefy_apy up) (beefy_tvl up)
          min_apy min_tvl (effective_chains cs) = [])
   \<and> (failed (defillama_pools up) \<and> failed (yearn_vaults up) \<and> failed (beefy_vaults up) \<longrightarrow>
        scan_yield_opportunities now up min_apy min_tvl cs = [])"
proof -
  have d: "failed (defillama_pools up) \<Longrightarrow>
        scan_defillama_yields now (defillama_pools up) min_apy min_tvl (effective_chains cs) = []"
    by (simp add: failed_def scan_defillama_yields_def split: http.splits)
  have y: "failed (yearn_vaults up) \<Longrightarrow>
        scan_yearn_yields now (yearn_vaults up) min_apy min_tvl = []"
    by (simp add: failed_def scan_yearn_yields_def split: http.splits)
  have b: "failed (beefy_vaults up) \<or> failed (beefy_apy up) \<or> failed (beefy_tvl up) \<Longrightarrow>
        scan_beefy_yields now (beefy_vaults up) (beefy_apy up) (beefy_tvl up)
          min_apy min_tvl (effective_chains cs) = []"
    by (auto simp add: failed_def scan_beefy_yields_def split: http.splits)
  have m: "scan_yield_opportunities now up min_apy min_tvl cs =
     sorted_by_apy_desc (deduplicate_opportunities
       (scan_defillama_yields now (defillama_pools up) min_apy min_tvl (effective_chains cs)
        @ scan_yearn_yields now (yearn_vaults up) min_apy min_tvl
        @ scan_beefy_yields now (beefy_vaults up) (beefy_apy up) (beefy_tvl up)
            min_apy min_tvl (effective_chains cs)))"
    by (simp add: scan_yield_opportunities_def merge_results_def Let_def)
  have a: "failed (defillama_pools up) \<and> failed (yearn_vaults up) \<and> failed (beefy_vaults up) \<Longrightarrow>
        scan_yield_opportunities now up min_apy min_tvl cs = []"
    unfolding m using d y b by (simp add: dedup_nil sorted_nil)
  show ?thesis using m d y b a by blast
qed

theorem fail_partial_witness:
  "failed (defillama_pools upstream_yearn_only)
   \<and> failed (beefy_vaults upstream_yearn_only)
   \<and> scan_yield_opportunities 0 upstream_yearn_only 1 100000 None
       = [yearn_opportunity 0 vault_dai]"
proof -
  have f: "failed (defillama_pools upstream_yearn_only)"
    "failed (beefy_vaults upstream_yearn_only)"
    by (simp_all add: failed_def upstream_yearn_only_def)
  have y: "scan_yearn_yields 0 (yearn_vaults upstream_yearn_only) 1 100000
             = [yearn_opportunity 0 vault_dai]"
    by (simp add: scan_yearn_yields_def upstream_yearn_only_def yearn_admits_def vault_dai_def
        get_or_def)
  from fail_partial[of 0 upstream_yearn_only 1 100000 None] f y
  show ?thesis by (simp add: deduplicate_opportunities_def sorted_by_apy_desc_def)
qed

text \<open>
  C5: the chain filter is not applied to Yearn. With \<open>chains = ['polygon']\<close> and one
  admissible Yearn vault, the returned list holds a record whose chain is ethereum:
  \<^verbatim>\<open>_scan_yearn_yields\<close> takes no chains argument, unlike its two siblings.
\<close>

theorem yearn_ignores_chains:
  "map chain (scan_yield_opportunities 0 upstream_yearn_only 1 100000 (Some [''polygon'']))
     = [''ethereum'']"
  by (simp add: scan_yield_opportunities_def effective_chains_def merge_results_def
      scan_defillama_yields_def scan_yearn_yields_def scan_beefy_yields_def
      upstream_yearn_only_def vault_dai_def yearn_admits_def yearn_opportunity_def get_or_def
      deduplicate_opportunities_def sorted_by_apy_desc_def)

section \<open>Properties of the cache\<close>

subsection \<open>Key derivation\<close>

lemma filter_key_short:
  "distinct (map f xs) \<Longrightarrow> length (filter (\<lambda>x. f x = c) xs) \<le> 1"
  by (induction xs) (auto simp: filter_empty_conv image_iff)

lemma short_lists_by_mset:
  assumes "mset as = mset bs" "length as \<le> 1"
  shows "as = bs"
proof (cases as)
  case Nil
  with assms show ?thesis by simp
next
  case (Cons a as')
  with assms have "as = [a]" by simp
  with assms show ?thesis by (metis mset.simps(1) mset.simps(2) mset_single_iff_right)
qed

lemma sort_key_permutation:
  assumes "mset xs = mset ys" "distinct (map f xs)"
  shows "sort_key f xs = sort_key f ys"
proof (rule properties_for_sort_key)
  show "mset (sort_key f ys) = mset xs" using assms by simp
  show "sorted (map f (sort_key f ys))" by simp
  fix k assume "k \<in> set (sort_key f ys)"
  have "filter (\<lambda>x. f x = f k) (sort_key f ys) = filter (\<lambda>x. f x = f k) ys"
    by (rule sort_key_stable)
  moreover have "filter (\<lambda>x. f x = f k) xs = filter (\<lambda>x. f x = f k) ys"
  proof (rule short_lists_by_mset)
    show "mset (filter (\<lambda>x. f x = f k) xs) = mset (filter (\<lambda>x. f x = f k) ys)"
      using assms(1) by (metis mset_filter)
    show "length (filter (\<lambda>x. f x = f k) xs) \<le> 1"
      using assms(2) by (rule filter_key_short)
  qed
  ultimately have "filter (\<lambda>x. f x = f k) (sort_key f ys) = filter (\<lambda>x. f x = f k) xs"
    by simp
  then show "filter (\<lambda>x. f k = f x) (sort_key f ys) = filter (\<lambda>x. f k = f x) xs"
    by (simp add: eq_commute)
qed

text \<open>
  C8. For every prefix and every two item lists of a parameter dict that are permutations
  of each other (a dict has distinct keys), \<^verbatim>\<open>_generate_key\<close> derives the same key; the
  key is the prefix, a colon, and the digest of the serialization of the sorted items,
  so its length is that of the prefix plus 33 for a digest of 32 characters (MD5 in
  hexadecimal).
\<close>

theorem generate_key_permutation:
  assumes "mset xs = mset ys" and "distinct (map fst xs)"
  shows "generate_key dumps md5_hex prefix (IdDict xs)
           = generate_key dumps md5_hex prefix (IdDict ys)
         \<and> (\<forall>s. dumps (sort_key fst xs) = Inr s \<longrightarrow>
               generate_key dumps md5_hex prefix (IdDict xs)
                 = Inr (prefix @ '':'' @ md5_hex s)
               \<and> ((\<forall>t. length (md5_hex t) = 32) \<longrightarrow>
                    length (prefix @ '':'' @ md5_hex s) = length prefix + 33))"
proof -
  have s: "sort_key fst xs = sort_key fst ys"
    using assms by (rule sort_key_permutation)
  have same: "generate_key dumps md5_hex prefix (IdDict xs)
                = generate_key dumps md5_hex prefix (IdDict ys)"
    by (simp add: generate_key_def s)
  have form: "generate_key dumps md5_hex prefix (IdDict xs) = Inr (prefix @ '':'' @ md5_hex s)"
    if "dumps (sort_key fst xs) = Inr s" for s
    using that by (simp add: generate_key_def)
  have len: "length (prefix @ '':'' @ md5_hex s) = length prefix + 33"
    if "\<forall>t. length (md5_hex t) = 32" for s
    using that by simp
  show ?thesis using same form len by blast
qed

theorem generate_key_permutation_witness:
  "generate_key (\<lambda>items. Inr (concat (map fst items))) (\<lambda>s. replicate 32 CHR ''0'')
       ''yield'' (IdDict [(''min_tvl'', 2::int), (''min_apy'', 1)])
     = generate_key (\<lambda>items. Inr (concat (map fst items))) (\<lambda>s. replicate 32 CHR ''0'')
       ''yield'' (IdDict [(''min_apy'', 1::int), (''min_tvl'', 2)])
   \<and> generate_key (\<lambda>items. Inr (concat (map fst items))) (\<lambda>s. replicate 32 CHR ''0'')
       ''yield'' (IdDict [(''min_tvl'', 2::int), (''min_apy'', 1)])
     = Inr (''yield:'' @ replicate 32 CHR ''0'')
   \<and> length (''yield:'' @ replicate 32 CHR ''0'') = 38"
proof -
  let ?dumps = "\<lambda>items :: (string \<times> int) list. (Inr (concat (map fst items)) :: py_error + string)"
  let ?md5 = "\<lambda>s :: string. replicate 32 CHR ''0''"
  have p: "mset [(''min_tvl'', 2::int), (''min_apy'', 1)] = mset [(''min_apy'', 1), (''min_tvl'', 2)]"
    by simp
  have d: "distinct (map fst [(''min_tvl'', 2::int), (''min_apy'', 1)])" by simp
  have e: "?dumps (sort_key fst [(''min_tvl'', 2::int), (''min_apy'', 1)]) = Inr ''min_apymin_tvl''"
    by simp
  note t = generate_key_permutation[OF p d, of ?dumps ?md5 "''yield''"]
  from t have r1:
    "generate_key ?dumps ?md5 ''yield'' (IdDict [(''min_tvl'', 2::int), (''min_apy'', 1)])
       = generate_key ?dumps ?md5 ''yield'' (IdDict [(''min_apy'', 1::int), (''min_tvl'', 2)])"
    by (rule conjunct1)
  from t e have
    "generate_key ?dumps ?md5 ''yield'' (IdDict [(''min_tvl'', 2::int), (''min_apy'', 1)])
       = Inr (''yield'' @ '':'' @ ?md5 ''min_apymin_tvl'')"
    by blast
  then have r2:
    "generate_key ?dumps ?md5 ''yield'' (IdDict [(''min_tvl'', 2::int), (''min_apy'', 1)])
       = Inr (''yield:'' @ replicate 32 CHR ''0'')"
    by simp
  have l: "length (''yield:'' @ replicate 32 CHR ''0'') = 38" by simp
  show ?thesis by (intro conjI) (rule r1, rule r2, rule l)
qed
subsection \<open>Fallback values\<close>

text \<open>
  C10, as stated, fails: not every operation of the cache manager is non-throwing.
  \<^verbatim>\<open>initialize\<close> on a store that cannot be reached raises to its caller.
\<close>

theorem initialize_raises_counterexample:
  "initialize \<lparr> entries = (\<lambda>k. None), available = False \<rparr> = Inl RedisError"
  by (simp add: initialize_def)

text \<open>
  C10, amended. \<^verbatim>\<open>set\<close>, \<^verbatim>\<open>get\<close>, \<^verbatim>\<open>delete\<close> and \<^verbatim>\<open>exists\<close> do not raise: when the
  Redis client is not initialized, or when the store raises on every command, \<^verbatim>\<open>set\<close>
  returns False, \<^verbatim>\<open>get\<close> returns the caller's default, \<^verbatim>\<open>delete\<close> returns False and
  \<^verbatim>\<open>exists\<close> returns False, the cache being left as it was; \<^verbatim>\<open>set\<close> also returns False
  when the value cannot be serialized or the time to live is not positive.
  \<^verbatim>\<open>initialize\<close> is not of that kind: it raises when the store cannot be reached, and
  yields an initialized manager otherwise.
\<close>

theorem cache_fallback_values:
  "((redis cm = None \<or> (\<exists>conn. redis cm = Some conn \<and> \<not> available conn)) \<longrightarrow>
       set_cache cm now key v ttl data_type = (False, cm)
       \<and> get_cache cm now key dflt = dflt
       \<and> delete_cache cm now key = (False, cm)
       \<and> exists_cache cm now key = False)
   \<and> (is_dict_or_list v \<and> \<not> dumps_ok v \<longrightarrow>
       set_cache cm now key v ttl data_type = (False, cm))
   \<and> (effective_ttl ttl data_type \<le> 0 \<longrightarrow>
       set_cache cm now key v ttl data_type = (False, cm))
   \<and> (\<not> available conn0 \<longrightarrow> initialize conn0 = Inl RedisError)
   \<and> (available conn0 \<longrightarrow> initialize conn0 = Inr \<lparr> redis = Some conn0 \<rparr>)"
proof -
  have none: "set_cache cm now key v ttl data_type = (False, cm)
       \<and> get_cache cm now key dflt = dflt
       \<and> delete_cache cm now key = (False, cm)
       \<and> exists_cache cm now key = False"
    if "redis cm = None"
    using that
    by (simp add: set_cache_def set_body_def get_cache_def get_body_def delete_cache_def
        delete_body_def exists_cache_def)
  have down: "set_cache cm now key v ttl data_type = (False, cm)
       \<and> get_cache cm now key dflt = dflt
       \<and> delete_cache cm now key = (False, cm)
       \<and> exists_cache cm now key = False"
    if "redis cm = Some conn" "\<not> available conn" for conn
    using that
    by (simp add: set_cache_def set_body_def get_cache_def get_body_def delete_cache_def
        delete_body_def exists_cache_def redis_setex_def redis_get_def redis_delete_def
        redis_exists_def Let_def split: sum.splits)
  have ser: "set_cache cm now key v ttl data_type = (False, cm)"
    if "is_dict_or_list v \<and> \<not> dumps_ok v"
    using that
    by (simp add: set_cache_def set_body_def serialize_value_def json_dumps_def Let_def
        split: option.splits)
  have ttl: "set_cache cm now key v ttl data_type = (False, cm)"
    if "effective_ttl ttl data_type \<le> 0"
    using that
    by (simp add: set_cache_def set_body_def redis_setex_def Let_def
        split: option.splits sum.splits)
  have ini: "\<not> available conn0 \<longrightarrow> initialize conn0 = Inl RedisError"
    "available conn0 \<longrightarrow> initialize conn0 = Inr \<lparr> redis = Some conn0 \<rparr>"
    by (simp_all add: initialize_def)
  show ?thesis using none down ser ttl ini by blast
qed

theorem cache_fallback_values_witness:
  "set_cache down_cache 0 ''k'' value_v1 (Some 60) ''default'' = (False, down_cache)
   \<and> get_cache down_cache 0 ''k'' (PStr ''miss'') = PStr ''miss''
   \<and> delete_cache down_cache 0 ''k'' = (False, down_cache)
   \<and> exists_cache down_cache 0 ''k'' = False
   \<and> set_cache \<lparr>redis = None\<rparr> 0 ''k'' value_v1 (Some 60) ''default'' = (False, \<lparr>redis = None\<rparr>)
   \<and> get_cache \<lparr>redis = None\<rparr> 0 ''k'' (PStr ''miss'') = PStr ''miss''
   \<and> delete_cache \<lparr>redis = None\<rparr> 0 ''k'' = (False, \<lparr>redis = None\<rparr>)
   \<and> set_cache empty_cache 0 ''k'' value_tuple_key (Some 60) ''default'' = (False, empty_cache)
   \<and> set_cache empty_cache 0 ''k'' value_v1 (Some 0) ''default'' = (False, empty_cache)
   \<and> initialize \<lparr> entries = (\<lambda>k. None), available = True \<rparr> = Inr empty_cache"
proof -
  let ?up = "\<lparr> entries = (\<lambda>k. None), available = True \<rparr> :: redis_conn"
  have d: "redis down_cache = None \<or> (\<exists>conn. redis down_cache = Some conn \<and> \<not> available conn)"
    by (simp add: down_cache_def)
  have n: "redis \<lparr>redis = None\<rparr> = None \<or> (\<exists>conn. redis \<lparr>redis = None\<rparr> = Some conn \<and> \<not> available conn)"
    by simp
  have s: "is_dict_or_list value_tuple_key \<and> \<not> dumps_ok value_tuple_key"
    by (simp add: value_tuple_key_def is_dict_or_list_def)
  have t: "effective_ttl (Some 0) ''default'' \<le> 0"
    by (simp add: effective_ttl_def)
  have a: "available ?up" by simp
  have e: "empty_cache = \<lparr> redis = Some ?up \<rparr>" by (simp add: empty_cache_def)
  from cache_fallback_values[of down_cache 0 "''k''" value_v1 "Some 60" "''default''" "PStr ''miss''" ?up] d
  have 1: "set_cache down_cache 0 ''k'' value_v1 (Some 60) ''default'' = (False, down_cache)"
    "get_cache down_cache 0 ''k'' (PStr ''miss'') = PStr ''miss''"
    "delete_cache down_cache 0 ''k'' = (False, down_cache)"
    "exists_cache down_cache 0 ''k'' = False"
    by blast+
  from cache_fallback_values[of "\<lparr>redis = None\<rparr>" 0 "''k''" value_v1 "Some 60" "''default''" "PStr ''miss''" ?up] n
  have 2: "set_cache \<lparr>redis = None\<rparr> 0 ''k'' value_v1 (Some 60) ''default'' = (False, \<lparr>redis = None\<rparr>)"
    "get_cache \<lparr>redis = None\<rparr> 0 ''k'' (PStr ''miss'') = PStr ''miss''"
    "delete_cache \<lparr>redis = None\<rparr> 0 ''k'' = (False, \<lparr>redis = None\<rparr>)"
    by blast+
  from cache_fallback_values[of empty_cache 0 "''k''" value_tuple_key "Some 60" "''default''" PNone ?up] s
  have 3: "set_cache empty_cache 0 ''k'' value_tuple_key (Some 60) ''default'' = (False, empty_cache)"
    by blast
  from cache_fallback_values[of empty_cache 0 "''k''" value_v1 "Some 0" "''default''" PNone ?up] t
  have 4: "set_cache empty_cache 0 ''k'' value_v1 (Some 0) ''default'' = (False, empty_cache)"
    by blast
  from cache_fallback_values[of empty_cache 0 "''k''" value_v1 "Some 0" "''default''" PNone ?up] a
  have "initialize ?up = Inr \<lparr> redis = Some ?up \<rparr>"
    by blast
  then have 5: "initialize ?up = Inr empty_cache" by (simp only: e)
  show ?thesis using 1 2 3 4 5 by blast
qed

subsection \<open>Reading back a stored value\<close>

lemma set_cache_stored:
  assumes "set_cache cm now key v ttl data_type = (True, cm')"
  shows "\<exists>conn s. redis cm = Some conn \<and> available conn \<and> 0 < effective_ttl ttl data_type
           \<and> serialize_value v = Inr s
           \<and> cm' = cm\<lparr>redis := Some (conn\<lparr>entries := (entries conn)
                        (key \<mapsto> (s, now + nat (effective_ttl ttl data_type)))\<rparr>)\<rparr>"
  using assms
  by (auto simp: set_cache_def set_body_def redis_setex_def Let_def
      split: option.splits sum.splits if_splits)

text \<open>
  C9, the defect. A value that is neither a dict nor a list is stored as a pickle, and
  \<^verbatim>\<open>get\<close> never returns it: \<^verbatim>\<open>json.loads\<close> on the pickle raises UnicodeDecodeError, which
  the inner handler (JSONDecodeError, TypeError) does not catch, so the pickle branch
  is never reached and the outer handler returns the default. After any successful
  \<^verbatim>\<open>set\<close> of such a value, every \<^verbatim>\<open>get\<close> on the key, before or after the time to live
  has elapsed, returns the caller's default.
\<close>

theorem pickled_value_never_read:
  assumes "\<not> is_dict_or_list v" and "set_cache cm now key v ttl data_type = (True, cm')"
  shows "get_cache cm' t key dflt = dflt"
proof -
  from set_cache_stored[OF assms(2)] obtain conn s where
    c: "redis cm = Some conn" "available conn" and s: "serialize_value v = Inr s"
    and cm': "cm' = cm\<lparr>redis := Some (conn\<lparr>entries := (entries conn)
                        (key \<mapsto> (s, now + nat (effective_ttl ttl data_type)))\<rparr>)\<rparr>"
    by blast
  from s assms(1) have "s = PickleBytes v" by (simp add: serialize_value_def)
  then show ?thesis
    by (simp add: cm' c get_cache_def get_body_def redis_get_def redis_live_def loads_value_def)
qed

theorem pickled_value_never_read_witness:
  "set_cache empty_cache 0 ''k'' (PStr ''hello'') (Some 60) ''default''
     = (True, snd (set_cache empty_cache 0 ''k'' (PStr ''hello'') (Some 60) ''default''))
   \<and> get_cache (snd (set_cache empty_cache 0 ''k'' (PStr ''hello'') (Some 60) ''default''))
       1 ''k'' PNone = PNone
   \<and> PNone \<noteq> PStr ''hello''"
proof -
  have n: "\<not> is_dict_or_list (PStr ''hello'')" by (simp add: is_dict_or_list_def)
  have s: "set_cache empty_cache 0 ''k'' (PStr ''hello'') (Some 60) ''default''
     = (True, snd (set_cache empty_cache 0 ''k'' (PStr ''hello'') (Some 60) ''default''))"
    by (simp add: set_cache_def set_body_def redis_setex_def empty_cache_def effective_ttl_def
        serialize_value_def is_dict_or_list_def)
  from pickled_value_never_read[OF n s, where t = 1 and dflt = PNone] s show ?thesis by simp
qed

subsection \<open>Concurrent calls of set\_if\_not\_exists\<close>

text \<open>
  A call that takes its two steps without the other call in between is
  \<^verbatim>\<open>set_if_not_exists\<close> itself.
\<close>

lemma run_schedule_alone:
  "run_schedule cm now key ttl data_type (v, Start) c1 [0, 0] =
     (Finished (fst (set_if_not_exists cm now key v ttl data_type)), snd c1,
      snd (set_if_not_exists cm now key v ttl data_type))"
  by (simp add: step_call_def set_if_not_exists_def Let_def split: option.splits)

text \<open>
  One call after the other: the first writes, the second finds the key and reports False.
\<close>

lemma run_schedule_sequential:
  "run_schedule empty_cache 0 ''k'' (Some 60) ''default''
       (value_v1, Start) (value_v2, Start) [0, 0, 1, 1]
     = (Finished True, Finished False,
        snd (set_cache empty_cache 0 ''k'' value_v1 (Some 60) ''default''))"
  by (simp add: step_call_def exists_cache_def redis_exists_def redis_live_def
      set_cache_def set_body_def serialize_value_def is_dict_or_list_def json_dumps_def
      redis_setex_def effective_ttl_def value_v1_def value_v2_def empty_cache_def Let_def)

text \<open>
  C1: the write-if-missing is not atomic. \<^verbatim>\<open>set_if_not_exists\<close> awaits \<^verbatim>\<open>exists\<close> and
  then awaits \<^verbatim>\<open>set\<close>, two Redis commands with a suspension point between them. When
  two calls on an absent key both run their EXISTS before either runs its SETEX, both
  report True, and the value read afterwards is that of the second writer, which has
  overwritten the first.
\<close>

theorem set_if_not_exists_race:
  "fst (run_schedule empty_cache 0 ''k'' (Some 60) ''default''
          (value_v1, Start) (value_v2, Start) [0, 1, 0, 1]) = Finished True
   \<and> fst (snd (run_schedule empty_cache 0 ''k'' (Some 60) ''default''
          (value_v1, Start) (value_v2, Start) [0, 1, 0, 1])) = Finished True
   \<and> get_cache (snd (snd (run_schedule empty_cache 0 ''k'' (Some 60) ''default''
          (value_v1, Start) (value_v2, Start) [0, 1, 0, 1]))) 1 ''k'' PNone = value_v2
   \<and> value_v2 \<noteq> value_v1"
  by (simp add: step_call_def exists_cache_def redis_exists_def redis_live_def
      set_cache_def set_body_def serialize_value_def is_dict_or_list_def json_dumps_def
      redis_setex_def effective_ttl_def get_cache_def get_body_def redis_get_def
      loads_value_def dict_of_pairs_def get_or_def value_v1_def value_v2_def empty_cache_def
      Let_def)

section \<open>Properties of the database\<close>

lemma store_single:
  "yield_record d = Inr a \<Longrightarrow> store_yield_data db now [d] = Inr (1, upsert_yield now db a)"
  by (simp add: store_yield_data_def)

lemma upsert_conflict_rows:
  "list_ex (conflicts a) (yield_data db) \<Longrightarrow>
     yield_data (upsert_yield now db a)
       = map (\<lambda>r. if conflicts a r then do_update a r else r) (yield_data db)"
  by (simp add: upsert_yield_def)

lemma upsert_insert_rows:
  "\<not> list_ex (conflicts a) (yield_data db) \<Longrightarrow>
     yield_data (upsert_yield now db a) = yield_data db @ [new_yield_row (yield_seq db) now a]"
  by (simp add: upsert_yield_def)

lemma upsert_snapshots:
  "portfolio_snapshots (upsert_yield now db a) = portfolio_snapshots db"
  by (simp add: upsert_yield_def)

lemma do_update_fixed: "yield_fixed (do_update a r) = yield_fixed r"
  by (simp add: yield_fixed_def do_update_def yield_key_def)

lemma do_update_key: "yield_key (do_update a r) = yield_key r"
  by (simp add: do_update_def yield_key_def)

lemma do_update_payload:
  "yr_apy (do_update a r) = ya_apy a" "yr_tvl (do_update a r) = ya_tvl a"
  "yr_risk_score (do_update a r) = ya_risk_score a"
  "yr_created_at (do_update a r) = yr_created_at r" "yr_category (do_update a r) = yr_category r"
  by (simp_all add: do_update_def)

lemma new_row_key: "yield_key (new_yield_row i now a) = args_key a"
  by (simp add: new_yield_row_def yield_key_def args_key_def)

lemma upsert_existing:
  assumes p: "ya_pool_name a \<noteq> None" and r: "r \<in> set (yield_data db)"
    and k: "yield_key r = args_key a"
  shows "length (yield_data (upsert_yield now db a)) = length (yield_data db)"
    and "map yield_fixed (yield_data (upsert_yield now db a)) = map yield_fixed (yield_data db)"
    and "\<forall>r' \<in> set (yield_data (upsert_yield now db a)). yield_key r' = args_key a \<longrightarrow>
           yr_apy r' = ya_apy a \<and> yr_tvl r' = ya_tvl a \<and> yr_risk_score r' = ya_risk_score a"
    and "\<forall>i < length (yield_data db). yield_key (yield_data db ! i) \<noteq> args_key a \<longrightarrow>
           yield_data (upsert_yield now db a) ! i = yield_data db ! i"
proof -
  have ex: "list_ex (conflicts a) (yield_data db)"
    using p r k by (auto simp: list_ex_iff conflicts_def)
  note rows = upsert_conflict_rows[OF ex, of now]
  show "length (yield_data (upsert_yield now db a)) = length (yield_data db)"
    by (simp add: rows)
  show "map yield_fixed (yield_data (upsert_yield now db a)) = map yield_fixed (yield_data db)"
    by (simp add: rows do_update_fixed)
  show "\<forall>r' \<in> set (yield_data (upsert_yield now db a)). yield_key r' = args_key a \<longrightarrow>
           yr_apy r' = ya_apy a \<and> yr_tvl r' = ya_tvl a \<and> yr_risk_score r' = ya_risk_score a"
    using p by (auto simp: rows conflicts_def do_update_payload do_update_key split: if_splits)
  show "\<forall>i < length (yield_data db). yield_key (yield_data db ! i) \<noteq> args_key a \<longrightarrow>
           yield_data (upsert_yield now db a) ! i = yield_data db ! i"
    by (simp add: rows conflicts_def)
qed

lemma upsert_twice:
  assumes k: "args_key a1 = args_key a2" and p: "ya_pool_name a1 \<noteq> None"
    and fresh: "\<forall>r \<in> set (yield_data db). yield_key r \<noteq> args_key a1"
  shows "yield_data (upsert_yield t2 (upsert_yield t1 db a1) a2)
           = yield_data db @ [do_update a2 (new_yield_row (yield_seq db) t1 a1)]"
proof -
  have p2: "ya_pool_name a2 \<noteq> None"
    using k p by (simp add: args_key_def)
  have no: "\<not> list_ex (conflicts a1) (yield_data db)"
    using fresh by (simp add: list_ex_iff conflicts_def)
  have rows1: "yield_data (upsert_yield t1 db a1)
                 = yield_data db @ [new_yield_row (yield_seq db) t1 a1]"
    by (rule upsert_insert_rows[OF no])
  have ex: "list_ex (conflicts a2) (yield_data (upsert_yield t1 db a1))"
    using p2 k by (simp add: rows1 conflicts_def new_row_key)
  have old: "map (\<lambda>r. if conflicts a2 r then do_update a2 r else r) (yield_data db) = yield_data db"
  proof (rule map_idI)
    fix r assume "r \<in> set (yield_data db)"
    with fresh k show "(if conflicts a2 r then do_update a2 r else r) = r"
      by (auto simp: conflicts_def)
  qed
  have cn: "conflicts a2 (new_yield_row (yield_seq db) t1 a1)"
    using p2 k by (simp add: conflicts_def new_row_key)
  show ?thesis
    unfolding upsert_conflict_rows[OF ex] rows1 by (simp add: old cn)
qed

lemma snapshot_appends:
  assumes "store_portfolio_snapshot db now pid s = (True, db')"
  shows "\<exists>row. portfolio_snapshots db' = portfolio_snapshots db @ [row]
           \<and> sr_portfolio_id row = pid \<and> sd_timestamp s = Some (sr_timestamp row)"
  using assms
  by (auto simp: store_portfolio_snapshot_def snapshot_body_def
      split: option.splits sum.splits)

text \<open>
  C7, as stated, fails: not every kind of persisted row is upserted. A portfolio snapshot
  is stored by a plain INSERT into a table without a uniqueness constraint, so two calls
  for the same portfolio and timestamp leave two rows.
\<close>

theorem snapshot_duplicate_counterexample:
  "fst (store_portfolio_snapshot empty_db 1 ''p1'' snapshot_a) = True
   \<and> fst (store_portfolio_snapshot
            (snd (store_portfolio_snapshot empty_db 1 ''p1'' snapshot_a)) 2 ''p1'' snapshot_b)
       = True
   \<and> map sr_portfolio_id (portfolio_snapshots db_two_snapshots) = [''p1'', ''p1'']
   \<and> map sr_timestamp (portfolio_snapshots db_two_snapshots) = [100, 100]
   \<and> map sr_total_value (portfolio_snapshots db_two_snapshots) = [1000, 2000]"
  by (simp add: db_two_snapshots_def store_portfolio_snapshot_def snapshot_body_def
      snapshot_a_def snapshot_b_def empty_db_def json_dumps_strict_def get_or_def)

text \<open>
  C7, amended. For yield rows whose \<^verbatim>\<open>pool_name\<close> is not NULL: storing a record whose key
  (protocol, pool_name, chain, last_updated) is that of an existing row creates no row;
  it overwrites apy, tvl and risk_score of the rows of that key and nothing else, so the
  key, \<^verbatim>\<open>id\<close>, \<^verbatim>\<open>created_at\<close> and the other columns (category, contract_address,
  token_symbols, minimum_deposit, lock_period) of every row are as before, and rows of
  another key are untouched. Two calls with the same new key leave exactly one row of
  that key, carrying the scores of the second call and the creation time of the first.
  A record whose \<^verbatim>\<open>pool_name\<close> is NULL is always appended, and so is every portfolio
  snapshot that is stored.
\<close>

theorem yield_upsert_no_duplicate:
  "(yield_record d = Inr a \<and> ya_pool_name a \<noteq> None \<and> r \<in> set (yield_data db)
      \<and> yield_key r = args_key a \<longrightarrow>
      store_yield_data db now [d] = Inr (1, upsert_yield now db a)
      \<and> length (yield_data (upsert_yield now db a)) = length (yield_data db)
      \<and> map yield_fixed (yield_data (upsert_yield now db a)) = map yield_fixed (yield_data db)
      \<and> (\<forall>r' \<in> set (yield_data (upsert_yield now db a)). yield_key r' = args_key a \<longrightarrow>
           yr_apy r' = ya_apy a \<and> yr_tvl r' = ya_tvl a \<and> yr_risk_score r' = ya_risk_score a)
      \<and> (\<forall>i < length (yield_data db). yield_key (yield_data db ! i) \<noteq> args_key a \<longrightarrow>
           yield_data (upsert_yield now db a) ! i = yield_data db ! i)
      \<and> portfolio_snapshots (upsert_yield now db a) = portfolio_snapshots db)
   \<and> (yield_record d1 = Inr a1 \<and> yield_record d2 = Inr a2 \<and> args_key a1 = args_key a2
      \<and> ya_pool_name a1 \<noteq> None
      \<and> (\<forall>r \<in> set (yield_data db). yield_key r \<noteq> args_key a1) \<longrightarrow>
      store_yield_data db t1 [d1] = Inr (1, upsert_yield t1 db a1)
      \<and> store_yield_data (upsert_yield t1 db a1) t2 [d2]
          = Inr (1, upsert_yield t2 (upsert_yield t1 db a1) a2)
      \<and> length (filter (\<lambda>r. yield_key r = args_key a1)
                  (yield_data (upsert_yield t2 (upsert_yield t1 db a1) a2))) = 1
      \<and> (\<forall>r \<in> set (yield_data (upsert_yield t2 (upsert_yield t1 db a1) a2)).
           yield_key r = args_key a1 \<longrightarrow>
             yr_apy r = ya_apy a2 \<and> yr_tvl r = ya_tvl a2 \<and> yr_risk_score r = ya_risk_score a2
             \<and> yr_created_at r = t1 \<and> yr_category r = ya_category a1))
   \<and> (ya_pool_name a = None \<longrightarrow>
      yield_data (upsert_yield now db a) = yield_data db @ [new_yield_row (yield_seq db) now a])
   \<and> (store_portfolio_snapshot db now pid s = (True, db') \<longrightarrow>
      length (portfolio_snapshots db') = Suc (length (portfolio_snapshots db))
      \<and> take (length (portfolio_snapshots db)) (portfolio_snapshots db') = portfolio_snapshots db)"
proof -
  have one: "store_yield_data db now [d] = Inr (1, upsert_yield now db a)
      \<and> length (yield_data (upsert_yield now db a)) = length (yield_data db)
      \<and> map yield_fixed (yield_data (upsert_yield now db a)) = map yield_fixed (yield_data db)
      \<and> (\<forall>r' \<in> set (yield_data (upsert_yield now db a)). yield_key r' = args_key a \<longrightarrow>
           yr_apy r' = ya_apy a \<and> yr_tvl r' = ya_tvl a \<and> yr_risk_score r' = ya_risk_score a)
      \<and> (\<forall>i < length (yield_data db). yield_key (yield_data db ! i) \<noteq> args_key a \<longrightarrow>
           yield_data (upsert_yield now db a) ! i = yield_data db ! i)
      \<and> portfolio_snapshots (upsert_yield now db a) = portfolio_snapshots db"
    if h: "yield_record d = Inr a \<and> ya_pool_name a \<noteq> None \<and> r \<in> set (yield_data db)
      \<and> yield_key r = args_key a"
  proof -
    from h have d: "yield_record d = Inr a" and p: "ya_pool_name a \<noteq> None"
      and r: "r \<in> set (yield_data db)" and k: "yield_key r = args_key a"
      by blast+
    show ?thesis
      using store_single[OF d, of db now] upsert_existing[OF p r k, of now]
        upsert_snapshots[of now db a]
      by (intro conjI) assumption+
  qed
  have two: "store_yield_data db t1 [d1] = Inr (1, upsert_yield t1 db a1)
      \<and> store_yield_data (upsert_yield t1 db a1) t2 [d2]
          = Inr (1, upsert_yield t2 (upsert_yield t1 db a1) a2)
      \<and> length (filter (\<lambda>r. yield_key r = args_key a1)
                  (yield_data (upsert_yield t2 (upsert_yield t1 db a1) a2))) = 1
      \<and> (\<forall>r \<in> set (yield_data (upsert_yield t2 (upsert_yield t1 db a1) a2)).
           yield_key r = args_key a1 \<longrightarrow>
             yr_apy r = ya_apy a2 \<and> yr_tvl r = ya_tvl a2 \<and> yr_risk_score r = ya_risk_score a2
             \<and> yr_created_at r = t1 \<and> yr_category r = ya_category a1)"
    if h: "yield_record d1 = Inr a1 \<and> yield_record d2 = Inr a2 \<and> args_key a1 = args_key a2
      \<and> ya_pool_name a1 \<noteq> None
      \<and> (\<forall>r \<in> set (yield_data db). yield_key r \<noteq> args_key a1)"
  proof -
    from h have d1: "yield_record d1 = Inr a1" and d2: "yield_record d2 = Inr a2"
      and k: "args_key a1 = args_key a2" and p: "ya_pool_name a1 \<noteq> None"
      and fresh: "\<forall>r \<in> set (yield_data db). yield_key r \<noteq> args_key a1"
      by blast+
    note rows = upsert_twice[OF k p fresh, of t2 t1]
    have old: "filter (\<lambda>r. yield_key r = args_key a1) (yield_data db) = []"
      using fresh by (simp add: filter_empty_conv)
    have len: "length (filter (\<lambda>r. yield_key r = args_key a1)
                  (yield_data (upsert_yield t2 (upsert_yield t1 db a1) a2))) = 1"
      by (simp add: rows old do_update_key new_row_key)
    have vals: "\<forall>r \<in> set (yield_data (upsert_yield t2 (upsert_yield t1 db a1) a2)).
           yield_key r = args_key a1 \<longrightarrow>
             yr_apy r = ya_apy a2 \<and> yr_tvl r = ya_tvl a2 \<and> yr_risk_score r = ya_risk_score a2
             \<and> yr_created_at r = t1 \<and> yr_category r = ya_category a1"
      using fresh by (auto simp: rows do_update_payload new_yield_row_def)
    show ?thesis
      using store_single[OF d1, of db t1] store_single[OF d2, of "upsert_yield t1 db a1" t2]
        len vals
      by (intro conjI) assumption+
  qed
  have null: "yield_data (upsert_yield now db a)
                = yield_data db @ [new_yield_row (yield_seq db) now a]"
    if "ya_pool_name a = None"
    using that by (simp add: upsert_insert_rows list_ex_iff conflicts_def)
  have snap: "length (portfolio_snapshots db') = Suc (length (portfolio_snapshots db))
      \<and> take (length (portfolio_snapshots db)) (portfolio_snapshots db') = portfolio_snapshots db"
    if "store_portfolio_snapshot db now pid s = (True, db')"
    using snapshot_appends[OF that] by auto
  show ?thesis using one two null snap by blast
qed

theorem yield_upsert_no_duplicate_witness:
  "store_yield_data empty_db 1 [yield_dict_a] = Inr (1, upsert_yield 1 empty_db yield_args_a)
   \<and> store_yield_data (upsert_yield 1 empty_db yield_args_a) 2 [yield_dict_b]
       = Inr (1, db_two_yields)
   \<and> length (yield_data db_two_yields) = 1
   \<and> map yr_risk_score (yield_data db_two_yields) = [7]
   \<and> map yr_apy (yield_data db_two_yields) = [5]
   \<and> map yr_created_at (yield_data db_two_yields) = [1]
   \<and> map yr_category (yield_data db_two_yields) = [Some ''lending'']
   \<and> length (yield_data db_two_yields)
       = length (yield_data (upsert_yield 1 empty_db yield_args_a))
   \<and> length (portfolio_snapshots (snd (store_portfolio_snapshot empty_db 1 ''p1'' snapshot_a)))
       = Suc (length (portfolio_snapshots empty_db))"
proof -
  have a: "yield_record yield_dict_a = Inr yield_args_a"
    by (simp add: yield_record_def yield_dict_a_def yield_args_a_def get_or_def)
  have b: "yield_record yield_dict_b = Inr yield_args_b"
    by (simp add: yield_record_def yield_dict_b_def yield_dict_a_def yield_args_b_def
        yield_args_a_def get_or_def)
  have k: "args_key yield_args_a = args_key yield_args_b"
    by (simp add: args_key_def yield_args_b_def)
  have p: "ya_pool_name yield_args_a \<noteq> None"
    by (simp add: yield_args_a_def)
  have fresh: "\<forall>r \<in> set (yield_data empty_db). yield_key r \<noteq> args_key yield_args_a"
    by (simp add: empty_db_def)
  have rows: "yield_data db_two_yields
                = [do_update yield_args_b (new_yield_row 1 1 yield_args_a)]"
    unfolding db_two_yields_def upsert_twice[OF k p fresh] by (simp add: empty_db_def)
  from yield_upsert_no_duplicate[where ?d1.0 = yield_dict_a and ?a1.0 = yield_args_a
      and ?d2.0 = yield_dict_b and ?a2.0 = yield_args_b and db = empty_db and ?t1.0 = 1
      and ?t2.0 = 2] a b k p fresh
  have s: "store_yield_data empty_db 1 [yield_dict_a] = Inr (1, upsert_yield 1 empty_db yield_args_a)"
    "store_yield_data (upsert_yield 1 empty_db yield_args_a) 2 [yield_dict_b]
       = Inr (1, upsert_yield 2 (upsert_yield 1 empty_db yield_args_a) yield_args_b)"
    by blast+
  have s2: "store_yield_data (upsert_yield 1 empty_db yield_args_a) 2 [yield_dict_b]
       = Inr (1, db_two_yields)"
    unfolding db_two_yields_def by (rule s(2))
  have vals: "length (yield_data db_two_yields) = 1"
    "map yr_risk_score (yield_data db_two_yields) = [7]"
    "map yr_apy (yield_data db_two_yields) = [5]"
    "map yr_created_at (yield_data db_two_yields) = [1]"
    "map yr_category (yield_data db_two_yields) = [Some ''lending'']"
    by (simp_all add: rows do_update_def new_yield_row_def yield_args_a_def yield_args_b_def)
  have rows1: "yield_data (upsert_yield 1 empty_db yield_args_a)
                 = [new_yield_row 1 1 yield_args_a]"
    by (simp add: upsert_yield_def empty_db_def)
  have pb: "ya_pool_name yield_args_b \<noteq> None"
    by (simp add: yield_args_b_def yield_args_a_def)
  have r: "new_yield_row 1 1 yield_args_a \<in> set (yield_data (upsert_yield 1 empty_db yield_args_a))"
    unfolding rows1 by simp
  have kr: "yield_key (new_yield_row 1 1 yield_args_a) = args_key yield_args_b"
    by (simp add: new_row_key k)
  from yield_upsert_no_duplicate[where d = yield_dict_b and a = yield_args_b
      and r = "new_yield_row 1 1 yield_args_a" and db = "upsert_yield 1 empty_db yield_args_a"
      and now = 2] b pb r kr
  have "length (yield_data (upsert_yield 2 (upsert_yield 1 empty_db yield_args_a) yield_args_b))
          = length (yield_data (upsert_yield 1 empty_db yield_args_a))"
    by blast
  then have same: "length (yield_data db_two_yields)
       = length (yield_data (upsert_yield 1 empty_db yield_args_a))"
    by (simp only: db_two_yields_def)
  have st: "store_portfolio_snapshot empty_db 1 ''p1'' snapshot_a
              = (True, snd (store_portfolio_snapshot empty_db 1 ''p1'' snapshot_a))"
    by (simp add: store_portfolio_snapshot_def snapshot_body_def snapshot_a_def
        json_dumps_strict_def get_or_def)
  from yield_upsert_no_duplicate[where db = empty_db and now = 1 and pid = "''p1''"
      and s = snapshot_a and db' = "snd (store_portfolio_snapshot empty_db 1 ''p1'' snapshot_a)"] st
  have snap: "length (portfolio_snapshots (snd (store_portfolio_snapshot empty_db 1 ''p1'' snapshot_a)))
       = Suc (length (portfolio_snapshots empty_db))"
    by blast
  show ?thesis
    using s(1) s2 vals same snap by (intro conjI) assumption+
qed

end
